theory Spec2Isabelle
  imports Complex_Main
begin

section \<open>Data model\<close>

text \<open>
  The server (backend/server.js) keeps three process-wide variables
  (\<open>currentActivePoll\<close>, \<open>pollTimer\<close>, \<open>answeredStudentsCount\<close>) and talks to two
  Mongoose collections (Student, Poll). Every socket handler is modelled as a function
  from the state before the event to the state after it; the handlers run one after the
  other (no interleaving of two handlers is modelled).
\<close>

subsection \<open>Documents\<close>

text \<open>
  StudentSchema of backend/models/Student.js. \<open>socketId = None\<close> is the JavaScript
  \<open>null\<close> that the disconnect handler stores and the kick handler tries to store.
  Times are milliseconds.
\<close>

record student =
  socketId :: "string option"
  studentId :: string
  name :: string
  lastSeen :: nat
  hasAnswered :: bool
  kicked :: bool

record poll_option =
  opt_text :: string
  isCorrect :: bool
  votes :: nat

datatype poll_status = Active | Completed

text \<open>
  Modelled from the spec: the schema file models/Poll.js is not part of the sources; the
  fields are the ones server.js reads and writes (\<open>_id\<close>, \<open>question\<close>, \<open>options\<close> with
  \<open>text\<close>, \<open>isCorrect\<close>, \<open>votes\<close>, \<open>duration\<close>, \<open>status\<close>, \<open>startTime\<close>,
  \<open>completedAt\<close>), which are also the attributes of Poll in section 3 of the spec.
\<close>

record poll =
  poll_id :: string
  question :: string
  options :: "poll_option list"
  duration :: nat
  status :: poll_status
  startTime :: nat
  completedAt :: "nat option"

subsection \<open>JavaScript numbers in the percentage computation\<close>

text \<open>
  \<open>Math.round((opt.votes / totalVotes) * 100)\<close> is computed on IEEE 754 binary64
  numbers: the quotient is rounded to the nearest double (ties to even), the product with
  100 is rounded again, and \<open>Math.round\<close> takes the nearest integer, a tie going up.
  Vote counts are natural numbers below \<open>2 ^ 53\<close>, which are doubles exactly.
  A finite non-negative double is kept as a pair \<open>(m, e)\<close> standing for \<open>m * 2 ^ e\<close>.
  Division by zero does not raise in JavaScript: \<open>0 / 0\<close> is \<open>NaN\<close> and \<open>v / 0\<close> is
  \<open>Infinity\<close> for \<open>v > 0\<close>; \<open>Math.round\<close> returns both unchanged.
\<close>

datatype jsnum = Fin nat | NaN | PosInf

fun bits :: "nat \<Rightarrow> nat" where
  "bits n = (if n = 0 then 0 else Suc (bits (n div 2)))"

declare bits.simps [simp del]

definition rne_div :: "nat \<Rightarrow> nat \<Rightarrow> nat" where
  \<comment> \<open>the integer nearest to \<open>n / d\<close>, a tie going to the even one\<close>
  "rne_div n d =
     (let q = n div d; r = n mod d
      in if 2 * r < d then q
         else if d < 2 * r then q + 1
         else if even q then q else q + 1)"

definition round53 :: "nat \<Rightarrow> nat \<Rightarrow> nat \<times> int" where
  \<comment> \<open>the double nearest to \<open>p / q\<close> for \<open>q > 0\<close>: 53 significant bits, ties to even\<close>
  "round53 p q =
     (if p = 0 then (0, 0)
      else
        let d = int (bits p) - int (bits q);
            e = (if q * 2 ^ nat d \<le> p * 2 ^ nat (- d) then d else d - 1);
            s = 52 - e
        in (rne_div (p * 2 ^ nat s) (q * 2 ^ nat (- s)), - s))"

definition js_div :: "nat \<Rightarrow> nat \<Rightarrow> nat \<times> int" where
  "js_div v t = round53 v t"

definition js_mul :: "nat \<times> int \<Rightarrow> nat \<Rightarrow> nat \<times> int" where
  "js_mul x k = (case x of (m, e) \<Rightarrow> round53 (m * k * 2 ^ nat e) (2 ^ nat (- e)))"

definition Math_round :: "nat \<times> int \<Rightarrow> nat" where
  \<comment> \<open>\<open>floor (x + 1/2)\<close> for \<open>x = m * 2 ^ e\<close>\<close>
  "Math_round x =
     (case x of (m, e) \<Rightarrow>
        (2 * (m * 2 ^ nat e) + 2 ^ nat (- e)) div (2 * 2 ^ nat (- e)))"

definition percentage_of :: "nat \<Rightarrow> nat \<Rightarrow> jsnum" where
  \<comment> \<open>\<open>Math.round((votes / totalVotes) * 100)\<close>\<close>
  "percentage_of v t =
     (if t = 0 then (if v = 0 then NaN else PosInf)
      else Fin (Math_round (js_mul (js_div v t) 100)))"

subsection \<open>Messages\<close>

text \<open>
  The payloads are JavaScript objects; a field that the emitting code does not put into
  the object is \<open>None\<close> here. \<open>ToSocket k\<close> is \<open>socket.emit\<close> on the connection
  \<open>k\<close>, \<open>ToAll\<close> is \<open>io.emit\<close>.
\<close>

record option_view =
  ov_text :: string
  ov_isCorrect :: bool
  ov_votes :: "nat option"
  ov_percentage :: "jsnum option"

record poll_view =
  pv_id :: string
  pv_question :: string
  pv_options :: "option_view list"
  pv_duration :: nat
  pv_startTime :: nat
  pv_status :: "poll_status option"
  pv_completedAt :: "nat option"

record pollUpdate_payload =
  pu_poll :: poll_view
  pu_totalVoters :: "nat option"
  pu_answeredCount :: nat
  pu_totalStudents :: nat

datatype message =
    ErrorMsg string
  | NewPoll "poll_view option"
  | PollUpdate pollUpdate_payload
  | PollEnded poll_view nat
  | StudentListUpdate "student list"
  | StudentKicked "string option"
  | ChatMessage string string nat

datatype target = ToSocket string | ToAll

subsection \<open>Server state\<close>

text \<open>
  \<open>students\<close> and \<open>polls\<close> are the two collections of the durable store,
  \<open>currentActivePoll\<close>, \<open>pollTimer\<close> and \<open>answeredStudentsCount\<close> the three variables
  of the process, \<open>connected\<close> the sockets that \<open>io.fetchSockets()\<close> returns,
  \<open>socketStudentId\<close> the property \<open>socket.studentId\<close> of each socket, and
  \<open>outbox\<close> every message emitted so far, oldest first.
\<close>

record server_state =
  students :: "student list"
  polls :: "string \<rightharpoonup> poll"
  currentActivePoll :: "poll option"
  pollTimer :: "nat option"
  answeredStudentsCount :: nat
  connected :: "string list"
  socketStudentId :: "string \<rightharpoonup> string"
  outbox :: "(target \<times> message) list"

definition initial_state :: server_state where
  "initial_state =
     \<lparr>students = [], polls = Map.empty, currentActivePoll = None, pollTimer = None,
      answeredStudentsCount = 0, connected = [], socketStudentId = Map.empty, outbox = []\<rparr>"

record poll_data =
  pd_question :: string
  pd_options :: "(string \<times> bool) list"
  pd_duration :: nat

section \<open>Store and emit helpers\<close>

definition emit :: "target \<Rightarrow> message \<Rightarrow> server_state \<Rightarrow> server_state" where
  "emit t m s = s\<lparr>outbox := outbox s @ [(t, m)]\<rparr>"

definition findOne :: "string \<Rightarrow> student list \<Rightarrow> student option" where
  \<comment> \<open>\<open>Student.findOne({ studentId })\<close>\<close>
  "findOne sid sts = find (\<lambda>st. studentId st = sid) sts"

definition valid_student :: "student \<Rightarrow> bool" where
  \<comment> \<open>the validation that \<open>student.save()\<close> runs before it writes: StudentSchema marks
      \<open>socketId\<close>, \<open>studentId\<close> and \<open>name\<close> as \<open>required\<close> strings, which \<open>null\<close> and
      the empty string do not satisfy; a document that fails makes \<open>save()\<close> throw.
      \<open>updateOne\<close> and \<open>updateMany\<close> run no validation\<close>
  "valid_student d \<longleftrightarrow>
     socketId d \<noteq> None \<and> socketId d \<noteq> Some [] \<and> studentId d \<noteq> [] \<and> name d \<noteq> []"

fun save_student :: "student \<Rightarrow> student list \<Rightarrow> student list" where
  \<comment> \<open>the write of \<open>student.save()\<close> for a valid document that \<open>findOne\<close> returned:
      it replaces that document\<close>
  "save_student d [] = []"
| "save_student d (x # xs) =
     (if studentId x = studentId d then d # xs else x # save_student d xs)"

fun updateOne_offline :: "string \<Rightarrow> nat \<Rightarrow> student list \<Rightarrow> student list" where
  \<comment> \<open>\<open>Student.updateOne({ socketId }, { $set: { socketId: null, lastSeen } })\<close>:
      the first match only\<close>
  "updateOne_offline k now [] = []"
| "updateOne_offline k now (x # xs) =
     (if socketId x = Some k then x\<lparr>socketId := None, lastSeen := now\<rparr> # xs
      else x # updateOne_offline k now xs)"

definition getActiveStudents :: "student list \<Rightarrow> student list" where
  \<comment> \<open>\<open>Student.find({ kicked: false, socketId: { $ne: null } })\<close>\<close>
  "getActiveStudents sts = filter (\<lambda>st. \<not> kicked st \<and> socketId st \<noteq> None) sts"

definition emitStudentListUpdate :: "bool \<Rightarrow> server_state \<Rightarrow> server_state" where
  \<comment> \<open>called without \<open>await\<close>: when its read fails nothing is emitted and no handler
      catches the rejection\<close>
  "emitStudentListUpdate read_fails s =
     (if read_fails then s
      else emit ToAll (StudentListUpdate (getActiveStudents (students s))) s)"

fun findIndex :: "('a \<Rightarrow> bool) \<Rightarrow> 'a list \<Rightarrow> nat option" where
  \<comment> \<open>\<open>Array.prototype.findIndex\<close>; \<open>None\<close> is the result \<open>-1\<close>\<close>
  "findIndex P [] = None"
| "findIndex P (x # xs) = (if P x then Some 0 else map_option Suc (findIndex P xs))"

definition totalVotes :: "poll \<Rightarrow> nat" where
  \<comment> \<open>\<open>options.reduce((sum, opt) => sum + opt.votes, 0)\<close>\<close>
  "totalVotes p = foldl (\<lambda>sum opt. sum + votes opt) 0 (options p)"

definition student_view :: "poll \<Rightarrow> poll_view" where
  \<comment> \<open>the poll of a \<open>newPoll\<close> message: options without votes\<close>
  "student_view p =
     \<lparr>pv_id = poll_id p, pv_question = question p,
      pv_options = map (\<lambda>opt. \<lparr>ov_text = opt_text opt, ov_isCorrect = isCorrect opt,
                                ov_votes = None, ov_percentage = None\<rparr>) (options p),
      pv_duration = duration p, pv_startTime = startTime p,
      pv_status = None, pv_completedAt = None\<rparr>"

definition optionsWithStats :: "poll \<Rightarrow> option_view list" where
  "optionsWithStats p =
     map (\<lambda>opt. \<lparr>ov_text = opt_text opt, ov_isCorrect = isCorrect opt,
                  ov_votes = Some (votes opt),
                  ov_percentage = Some (percentage_of (votes opt) (totalVotes p))\<rparr>)
       (options p)"

definition stats_view :: "poll \<Rightarrow> poll_view" where
  \<comment> \<open>the poll of the \<open>pollUpdate\<close> message after a vote\<close>
  "stats_view p =
     \<lparr>pv_id = poll_id p, pv_question = question p, pv_options = optionsWithStats p,
      pv_duration = duration p, pv_startTime = startTime p,
      pv_status = Some (status p), pv_completedAt = None\<rparr>"

definition document_view :: "poll \<Rightarrow> poll_view" where
  \<comment> \<open>the poll document itself, as \<open>poll: currentActivePoll\<close> serialises it\<close>
  "document_view p =
     \<lparr>pv_id = poll_id p, pv_question = question p,
      pv_options = map (\<lambda>opt. \<lparr>ov_text = opt_text opt, ov_isCorrect = isCorrect opt,
                                ov_votes = Some (votes opt), ov_percentage = None\<rparr>) (options p),
      pv_duration = duration p, pv_startTime = startTime p,
      pv_status = Some (status p), pv_completedAt = completedAt p\<rparr>"

definition finalResults :: "poll \<Rightarrow> poll_view" where
  \<comment> \<open>\<open>percentage: totalVotes > 0 ? Math.round((opt.votes / totalVotes) * 100) : 0\<close>\<close>
  "finalResults p =
     \<lparr>pv_id = poll_id p, pv_question = question p,
      pv_options = map (\<lambda>opt. \<lparr>ov_text = opt_text opt, ov_isCorrect = isCorrect opt,
                                ov_votes = Some (votes opt),
                                ov_percentage =
                                  Some (if 0 < totalVotes p
                                        then percentage_of (votes opt) (totalVotes p)
                                        else Fin 0)\<rparr>) (options p),
      pv_duration = duration p, pv_startTime = startTime p,
      pv_status = Some (status p), pv_completedAt = completedAt p\<rparr>"

section \<open>Socket handlers\<close>

text \<open>
  Every handler takes the socket \<open>sock\<close> it runs on, the payload, the clock \<open>now\<close>
  where it reads one, and \<open>fail\<close>: \<open>Some k\<close> makes the \<open>k\<close>-th store operation of the
  handler (counted from 0 in the order of the source, the unawaited read of
  \<open>emitStudentListUpdate\<close> last) throw, \<open>None\<close> lets all of them return. A
  \<open>student.save()\<close> also throws, with a healthy store, when the document does not pass
  \<open>valid_student\<close>. An operation that throws inside \<open>try\<close> leaves the changes made
  before it and jumps to the \<open>catch\<close> block.
\<close>

definition connection :: "server_state \<Rightarrow> string \<Rightarrow> server_state" where
  \<comment> \<open>a new socket: connected, with no \<open>studentId\<close> property yet\<close>
  "connection s sock =
     s\<lparr>connected := connected s @ [sock],
       socketStudentId := (socketStudentId s)(sock := None)\<rparr>"

definition studentJoin ::
  "server_state \<Rightarrow> string \<Rightarrow> string \<Rightarrow> string \<Rightarrow> nat \<Rightarrow> nat option \<Rightarrow> server_state" where
  \<comment> \<open>store operations: 0 \<open>findOne\<close>, 1 \<open>student.save\<close>, 2 the list read. \<open>doc\<close> is
      the document that is saved, the updated one or the new one; \<open>save()\<close> throws when
      the store fails or the document is not valid\<close>
  "studentJoin s sock nm sid now fail =
     (let s0 = s\<lparr>socketStudentId := (socketStudentId s)(sock \<mapsto> sid)\<rparr>
      in if fail = Some 0
         then emit (ToSocket sock) (ErrorMsg ''Failed to join session.'') s0
         else
           let doc =
                 (case findOne sid (students s0) of
                    Some st \<Rightarrow> st\<lparr>socketId := Some sock, lastSeen := now, kicked := False\<rparr>
                  | None \<Rightarrow>
                      \<lparr>socketId = Some sock, studentId = sid, name = nm,
                       lastSeen = now, hasAnswered = False, kicked = False\<rparr>)
           in if fail = Some 1 \<or> \<not> valid_student doc
              then emit (ToSocket sock) (ErrorMsg ''Failed to join session.'') s0
              else
                let s1 =
                      (case findOne sid (students s0) of
                         Some st \<Rightarrow> s0\<lparr>students := save_student doc (students s0)\<rparr>
                       | None \<Rightarrow> s0\<lparr>students := students s0 @ [doc]\<rparr>);
                    s2 =
                      (case currentActivePoll s1 of
                         Some p \<Rightarrow>
                           if status p = Active
                           then emit (ToSocket sock) (NewPoll (Some (student_view p))) s1
                           else emit (ToSocket sock) (NewPoll None) s1
                       | None \<Rightarrow> emit (ToSocket sock) (NewPoll None) s1)
                in emitStudentListUpdate (fail = Some 2) s2)"

definition add_vote :: "nat \<Rightarrow> poll \<Rightarrow> poll" where
  \<comment> \<open>\<open>currentActivePoll.options[optionIndex].votes++\<close>\<close>
  "add_vote i p =
     p\<lparr>options := (options p)[i := (options p ! i)\<lparr>votes := votes (options p ! i) + 1\<rparr>]\<rparr>"

definition submitAnswer ::
  "server_state \<Rightarrow> string \<Rightarrow> string \<Rightarrow> string \<Rightarrow> string \<Rightarrow> nat option \<Rightarrow> server_state" where
  \<comment> \<open>store operations: 0 \<open>findOne\<close>, 1 \<open>currentActivePoll.save\<close>, 2 \<open>student.save\<close>,
      3 \<open>getActiveStudents\<close> for the payload, 4 the list read. \<open>student.save()\<close> throws
      when the store fails or the student document is not valid\<close>
  "submitAnswer s sock pollId sid answer fail =
     (if socketStudentId s sock \<noteq> Some sid
      then emit (ToSocket sock)
             (ErrorMsg ''Authentication mismatch for submitting answer.'') s
      else
        (case currentActivePoll s of
           None \<Rightarrow> emit (ToSocket sock) (ErrorMsg ''No active poll or wrong poll ID.'') s
         | Some p \<Rightarrow>
             if poll_id p \<noteq> pollId
             then emit (ToSocket sock) (ErrorMsg ''No active poll or wrong poll ID.'') s
             else if fail = Some 0
             then emit (ToSocket sock)
                    (ErrorMsg ''Failed to submit answer due to server error.'') s
             else
               (case findOne sid (students s) of
                  None \<Rightarrow>
                    emit (ToSocket sock)
                      (ErrorMsg
                         ''You have already answered this poll or are not a valid student.'') s
                | Some st \<Rightarrow>
                    if hasAnswered st
                    then emit (ToSocket sock)
                           (ErrorMsg
                              ''You have already answered this poll or are not a valid student.'')
                           s
                    else
                      (case findIndex (\<lambda>opt. opt_text opt = answer) (options p) of
                         None \<Rightarrow> emit (ToSocket sock) (ErrorMsg ''Invalid answer option.'') s
                       | Some i \<Rightarrow>
                           (let p' = add_vote i p;
                                s1 = s\<lparr>currentActivePoll := Some p'\<rparr>
                            in if fail = Some 1
                               then emit (ToSocket sock)
                                      (ErrorMsg ''Failed to submit answer due to server error.'')
                                      s1
                               else
                                 (let s2 = s1\<lparr>polls := (polls s1)(poll_id p' \<mapsto> p')\<rparr>
                                  in if fail = Some 2 \<or>
                                        \<not> valid_student (st\<lparr>hasAnswered := True\<rparr>)
                                     then emit (ToSocket sock)
                                            (ErrorMsg
                                               ''Failed to submit answer due to server error.'')
                                            s2
                                     else
                                       (let s3 =
                                              s2\<lparr>students :=
                                                    save_student (st\<lparr>hasAnswered := True\<rparr>)
                                                      (students s2),
                                                  answeredStudentsCount :=
                                                    answeredStudentsCount s2 + 1\<rparr>
                                        in if fail = Some 3
                                           then emit (ToSocket sock)
                                                  (ErrorMsg
                                                     ''Failed to submit answer due to server error.'')
                                                  s3
                                           else
                                             emitStudentListUpdate (fail = Some 4)
                                               (emit ToAll
                                                  (PollUpdate
                                                     \<lparr>pu_poll = stats_view p',
                                                      pu_totalVoters = Some (totalVotes p'),
                                                      pu_answeredCount = answeredStudentsCount s3,
                                                      pu_totalStudents =
                                                        length (getActiveStudents (students s3))\<rparr>)
                                                  s3))))))))"

definition new_poll :: "string \<Rightarrow> poll_data \<Rightarrow> nat \<Rightarrow> poll" where
  \<comment> \<open>\<open>new Poll({...})\<close>; \<open>newId\<close> is the \<open>_id\<close> the document gets\<close>
  "new_poll newId pollData now =
     \<lparr>poll_id = newId, question = pd_question pollData,
      options = map (\<lambda>(t, c). \<lparr>opt_text = t, isCorrect = c, votes = 0\<rparr>) (pd_options pollData),
      duration = pd_duration pollData, status = Active, startTime = now,
      completedAt = None\<rparr>"

definition poll_is_active :: "server_state \<Rightarrow> bool" where
  \<comment> \<open>\<open>currentActivePoll && currentActivePoll.status === "active"\<close>\<close>
  "poll_is_active s =
     (case currentActivePoll s of None \<Rightarrow> False | Some p \<Rightarrow> status p = Active)"

definition createPoll ::
  "server_state \<Rightarrow> string \<Rightarrow> poll_data \<Rightarrow> string \<Rightarrow> nat \<Rightarrow> nat option \<Rightarrow> server_state" where
  \<comment> \<open>store operations: 0 \<open>Student.updateMany\<close>, 1 \<open>newPoll.save\<close>,
      2 \<open>getActiveStudents\<close> for the payload, 3 the list read\<close>
  "createPoll s sock pollData newId now fail =
     (if poll_is_active s
      then emit (ToSocket sock)
             (ErrorMsg
                ''A poll is already active. Please wait for it to complete or end it.'') s
      else if fail = Some 0
      then emit (ToSocket sock) (ErrorMsg ''Failed to create poll.'') s
      else
        let s1 =
              s\<lparr>students :=
                    map (\<lambda>st. if socketId st \<noteq> None \<and> \<not> kicked st
                              then st\<lparr>hasAnswered := False\<rparr> else st) (students s),
                answeredStudentsCount := 0\<rparr>;
            newPoll = new_poll newId pollData now
        in if fail = Some 1
           then emit (ToSocket sock) (ErrorMsg ''Failed to create poll.'') s1
           else
             let s2 =
                   s1\<lparr>polls := (polls s1)(newId \<mapsto> newPoll),
                      currentActivePoll := Some newPoll,
                      pollTimer := Some (pd_duration pollData * 1000)\<rparr>;
                 s3 = emit ToAll (NewPoll (Some (student_view newPoll))) s2
             in if fail = Some 2
                then emit (ToSocket sock) (ErrorMsg ''Failed to create poll.'') s3
                else
                  emitStudentListUpdate (fail = Some 3)
                    (emit ToAll
                       (PollUpdate
                          \<lparr>pu_poll = document_view newPoll,
                           pu_totalVoters = None,
                           pu_answeredCount = answeredStudentsCount s3,
                           pu_totalStudents = length (getActiveStudents (students s3))\<rparr>)
                       s3))"

definition endPoll ::
  "server_state \<Rightarrow> string option \<Rightarrow> nat \<Rightarrow> nat option \<Rightarrow> server_state \<times> bool" where
  \<comment> \<open>the helper \<open>endPoll(pollId)\<close>; the second component tells that it threw.
      \<open>pollId = None\<close> is a \<open>null\<close> or missing argument, on which \<open>pollId.toString()\<close>
      throws. Store operations: 0 \<open>currentActivePoll.save\<close>, 1 \<open>Student.updateMany\<close>,
      2 the list read\<close>
  "endPoll s pollId now fail =
     (case currentActivePoll s of
        None \<Rightarrow> (s, False)
      | Some p \<Rightarrow>
          (case pollId of
             None \<Rightarrow> (s, True)
           | Some i \<Rightarrow>
               if poll_id p \<noteq> i then (s, False)
               else
                 let p' = p\<lparr>status := Completed, completedAt := Some now\<rparr>;
                     s1 = s\<lparr>pollTimer := None, currentActivePoll := Some p'\<rparr>
                 in if fail = Some 0 then (s1, True)
                    else
                      let s2 = s1\<lparr>polls := (polls s1)(poll_id p' \<mapsto> p')\<rparr>;
                          s3 = emit ToAll (PollEnded (finalResults p') (totalVotes p')) s2;
                          s4 = s3\<lparr>currentActivePoll := None, answeredStudentsCount := 0\<rparr>
                      in if fail = Some 1 then (s4, True)
                         else
                           (emitStudentListUpdate (fail = Some 2)
                              (s4\<lparr>students :=
                                     map (\<lambda>st. st\<lparr>hasAnswered := False\<rparr>) (students s4)\<rparr>),
                            False)))"

definition endPollHandler ::
  "server_state \<Rightarrow> string \<Rightarrow> string option \<Rightarrow> nat \<Rightarrow> nat option \<Rightarrow> server_state" where
  \<comment> \<open>\<open>socket.on("endPoll", ...)\<close>\<close>
  "endPollHandler s sock pollId now fail =
     (case endPoll s pollId now fail of
        (s', threw) \<Rightarrow>
          if threw then emit (ToSocket sock) (ErrorMsg ''Failed to end poll.'') s' else s')"

definition timerFires :: "server_state \<Rightarrow> nat \<Rightarrow> nat option \<Rightarrow> server_state" where
  \<comment> \<open>the callback of \<open>setTimeout\<close>: \<open>await endPoll(currentActivePoll._id)\<close>, which reads
      the variable when the timer fires; nothing catches what it throws\<close>
  "timerFires s now fail =
     (case pollTimer s of
        None \<Rightarrow> s
      | Some d \<Rightarrow>
          (case currentActivePoll s of
             None \<Rightarrow> s
           | Some p \<Rightarrow> fst (endPoll s (Some (poll_id p)) now fail)))"

definition kickStudent ::
  "server_state \<Rightarrow> string \<Rightarrow> string \<Rightarrow> nat option \<Rightarrow> server_state" where
  \<comment> \<open>store operations: 0 \<open>findOne\<close>, 1 \<open>student.save\<close>, 2 the list read.
      \<open>student.save()\<close> throws when the store fails or the document, which now has
      \<open>socketId = null\<close>, is not valid. The forced disconnect removes the target socket;
      its \<open>disconnect\<close> event is handled as its own step\<close>
  "kickStudent s sock sid fail =
     (if fail = Some 0
      then emit (ToSocket sock) (ErrorMsg ''Failed to kick student.'') s
      else
        (case findOne sid (students s) of
          None \<Rightarrow> emit (ToSocket sock) (ErrorMsg ''Student not found.'') s
        | Some st \<Rightarrow>
            if fail = Some 1 \<or> \<not> valid_student (st\<lparr>kicked := True, socketId := None\<rparr>)
            then emit (ToSocket sock) (ErrorMsg ''Failed to kick student.'') s
            else
              let s1 =
                    s\<lparr>students :=
                          save_student (st\<lparr>kicked := True, socketId := None\<rparr>) (students s)\<rparr>;
                  s2 =
                    (case find (\<lambda>k. socketStudentId s1 k = Some sid) (connected s1) of
                       None \<Rightarrow> s1
                     | Some k \<Rightarrow>
                         (emit (ToSocket k) (StudentKicked None) s1)
                           \<lparr>connected := removeAll k (connected s1)\<rparr>)
              in emitStudentListUpdate (fail = Some 2)
                   (emit (ToSocket sock) (StudentKicked (Some sid)) s2)))"

definition sendMessage :: "server_state \<Rightarrow> string \<Rightarrow> string \<Rightarrow> nat \<Rightarrow> server_state" where
  "sendMessage s sender msg now = emit ToAll (ChatMessage sender msg now) s"

definition disconnect :: "server_state \<Rightarrow> string \<Rightarrow> nat \<Rightarrow> nat option \<Rightarrow> server_state" where
  \<comment> \<open>store operations: 0 \<open>Student.updateOne\<close>, 1 the list read\<close>
  "disconnect s sock now fail =
     (let s0 = s\<lparr>connected := removeAll sock (connected s)\<rparr>
      in if fail = Some 0 then s0
         else
           emitStudentListUpdate (fail = Some 1)
             (s0\<lparr>students := updateOne_offline sock now (students s0)\<rparr>))"

subsection \<open>Events and runs\<close>

datatype event =
    Connection string
  | StudentJoin string string string nat "nat option"
  | SubmitAnswer string string string string "nat option"
  | CreatePoll string poll_data string nat "nat option"
  | EndPoll string "string option" nat "nat option"
  | TimerFires nat "nat option"
  | KickStudent string string "nat option"
  | SendMessage string string nat
  | Disconnect string nat "nat option"

fun step :: "server_state \<Rightarrow> event \<Rightarrow> server_state" where
  "step s (Connection sock) = connection s sock"
| "step s (StudentJoin sock nm sid now fail) = studentJoin s sock nm sid now fail"
| "step s (SubmitAnswer sock pollId sid answer fail) = submitAnswer s sock pollId sid answer fail"
| "step s (CreatePoll sock pollData newId now fail) = createPoll s sock pollData newId now fail"
| "step s (EndPoll sock pollId now fail) = endPollHandler s sock pollId now fail"
| "step s (TimerFires now fail) = timerFires s now fail"
| "step s (KickStudent sock sid fail) = kickStudent s sock sid fail"
| "step s (SendMessage sender msg now) = sendMessage s sender msg now"
| "step s (Disconnect sock now fail) = disconnect s sock now fail"

definition run :: "server_state \<Rightarrow> event list \<Rightarrow> server_state" where
  "run s evs = foldl step s evs"

section \<open>Notions used by the properties\<close>

abbreviation (input) msg_already_answered :: string where
  "msg_already_answered \<equiv>
     ''You have already answered this poll or are not a valid student.''"

abbreviation (input) msg_submit_failed :: string where
  "msg_submit_failed \<equiv> ''Failed to submit answer due to server error.''"


abbreviation (input) msg_already_active :: string where
  "msg_already_active \<equiv>
     ''A poll is already active. Please wait for it to complete or end it.''"

definition accepts_vote ::
  "server_state \<Rightarrow> string \<Rightarrow> string \<Rightarrow> string \<Rightarrow> string \<Rightarrow> poll \<Rightarrow> student \<Rightarrow> nat \<Rightarrow> bool" where
  \<comment> \<open>the four checks of \<open>submitAnswer\<close> pass: the socket is bound to \<open>sid\<close>, \<open>p\<close> is the
      current poll and has the id \<open>pollId\<close>, \<open>st\<close> is the stored student and has not
      answered, and \<open>i\<close> is the index of the first option with the text \<open>answer\<close>\<close>
  "accepts_vote s sock pollId sid answer p st i \<longleftrightarrow>
     socketStudentId s sock = Some sid \<and> currentActivePoll s = Some p \<and>
     poll_id p = pollId \<and> findOne sid (students s) = Some st \<and> \<not> hasAnswered st \<and>
     findIndex (\<lambda>opt. opt_text opt = answer) (options p) = Some i"

definition voted :: "server_state \<Rightarrow> string \<Rightarrow> string \<Rightarrow> string \<Rightarrow> poll \<Rightarrow> student \<Rightarrow> nat \<Rightarrow> server_state" where
  \<comment> \<open>the state after the three updates of an accepted vote: the vote count in memory
      and in the store, the answered flag, the counter\<close>
  "voted s sock pollId sid p st i =
     s\<lparr>currentActivePoll := Some (add_vote i p),
       polls := (polls s)(pollId \<mapsto> add_vote i p),
       students := save_student (st\<lparr>hasAnswered := True\<rparr>) (students s),
       answeredStudentsCount := answeredStudentsCount s + 1\<rparr>"

definition submitAll ::
  "server_state \<Rightarrow> string \<Rightarrow> string \<Rightarrow> (string \<times> string) list \<Rightarrow> server_state" where
  \<comment> \<open>\<open>submitAnswer\<close> calls for one \<open>studentId\<close> and one \<open>pollId\<close>, one after the other,
      given as (socket, answer) pairs; no store operation fails\<close>
  "submitAll s pollId sid calls =
     foldl (\<lambda>s' (sock, answer). submitAnswer s' sock pollId sid answer None) s calls"

definition with_already_answered ::
  "server_state \<Rightarrow> (string \<times> string) list \<Rightarrow> server_state" where
  \<comment> \<open>the state \<open>s\<close> with one "already answered" notice more for each call, sent to
      the socket of the call, and nothing else changed\<close>
  "with_already_answered s calls =
     s\<lparr>outbox := outbox s @
         map (\<lambda>(sock, answer). (ToSocket sock, ErrorMsg msg_already_answered)) calls\<rparr>"

definition spec_percentage :: "nat \<Rightarrow> nat \<Rightarrow> int" where
  \<comment> \<open>the formula of the specification, in exact arithmetic:
      \<open>round(100 * optionVotes / totalVotes)\<close> when \<open>totalVotes > 0\<close>, else 0\<close>
  "spec_percentage v t = (if 0 < t then round (100 * rat_of_nat v / rat_of_nat t) else 0)"

subsection \<open>Example states\<close>

definition demo_poll_data :: poll_data where
  "demo_poll_data =
     \<lparr>pd_question = ''2+2?'', pd_options = [(''4'', True), (''5'', False)], pd_duration = 30\<rparr>"

definition demo_poll :: poll where
  "demo_poll =
     \<lparr>poll_id = ''p1'', question = ''2+2?'',
      options = [\<lparr>opt_text = ''4'', isCorrect = True, votes = 0\<rparr>,
                 \<lparr>opt_text = ''5'', isCorrect = False, votes = 0\<rparr>],
      duration = 30, status = Active, startTime = 2, completedAt = None\<rparr>"

definition demo_student :: student where
  "demo_student =
     \<lparr>socketId = Some ''a'', studentId = ''A'', name = ''Ann'', lastSeen = 1,
      hasAnswered = False, kicked = False\<rparr>"

definition demo_state :: server_state where
  \<comment> \<open>a teacher socket \<open>t\<close> and a student socket \<open>a\<close> connect, the student joins as
      \<open>A\<close>, the teacher creates the poll of the scenario in section 8 of the spec\<close>
  "demo_state =
     run initial_state
       [Connection ''t'', Connection ''a'', StudentJoin ''a'' ''Ann'' ''A'' 1 None,
        CreatePoll ''t'' demo_poll_data ''p1'' 2 None]"

definition joined_state :: server_state where
  "joined_state =
     run initial_state
       [Connection ''t'', Connection ''a'', StudentJoin ''a'' ''Ann'' ''A'' 1 None]"

definition answered_state :: server_state where
  \<comment> \<open>the example state after the student \<open>A\<close> has answered "4"\<close>
  "answered_state = run demo_state [SubmitAnswer ''a'' ''p1'' ''A'' ''4'' None]"

definition two_tab_state :: server_state where
  \<comment> \<open>the student \<open>A\<close> joins from the socket \<open>a\<close> and again from a second socket
      \<open>b\<close>, the socket \<open>b\<close> disconnects, which stores \<open>socketId = null\<close> for \<open>A\<close> while
      the socket \<open>a\<close> stays connected and bound to \<open>A\<close>, and the teacher creates the
      poll; no store operation fails\<close>
  "two_tab_state =
     run initial_state
       [Connection ''t'', Connection ''a'', Connection ''b'',
        StudentJoin ''a'' ''Ann'' ''A'' 1 None, StudentJoin ''b'' ''Ann'' ''A'' 2 None,
        Disconnect ''b'' 3 None, CreatePoll ''t'' demo_poll_data ''p1'' 4 None]"

definition two_tab_poll :: poll where
  "two_tab_poll =
     \<lparr>poll_id = ''p1'', question = ''2+2?'',
      options = [\<lparr>opt_text = ''4'', isCorrect = True, votes = 0\<rparr>,
                 \<lparr>opt_text = ''5'', isCorrect = False, votes = 0\<rparr>],
      duration = 30, status = Active, startTime = 4, completedAt = None\<rparr>"

definition two_tab_student :: student where
  "two_tab_student =
     \<lparr>socketId = None, studentId = ''A'', name = ''Ann'', lastSeen = 3,
      hasAnswered = False, kicked = False\<rparr>"

definition tally_poll :: poll where
  \<comment> \<open>the poll of \<open>demo_state\<close> after 40 respondents have answered, 23 of them "4"\<close>
  "tally_poll =
     \<lparr>poll_id = ''p1'', question = ''2+2?'',
      options = [\<lparr>opt_text = ''4'', isCorrect = True, votes = 23\<rparr>,
                 \<lparr>opt_text = ''5'', isCorrect = False, votes = 17\<rparr>],
      duration = 30, status = Active, startTime = 2, completedAt = None\<rparr>"

section \<open>Auxiliary facts\<close>

subsection \<open>Vote counts\<close>

lemma foldl_votes: "foldl (\<lambda>sum opt. sum + votes opt) a xs = a + sum_list (map votes xs)"
  by (induction xs arbitrary: a) simp_all

lemma totalVotes_sum_list: "totalVotes p = sum_list (map votes (options p))"
  by (simp add: totalVotes_def foldl_votes)

lemma findIndex_Some: "findIndex P xs = Some i \<Longrightarrow> i < length xs \<and> P (xs ! i)"
proof (induction xs arbitrary: i)
  case Nil
  then show ?case by simp
next
  case (Cons x xs)
  then show ?case by (cases "P x") auto
qed

lemma sum_list_votes_bump:
  "i < length xs \<Longrightarrow>
   sum_list (map votes (xs[i := (xs ! i)\<lparr>votes := votes (xs ! i) + 1\<rparr>])) =
   sum_list (map votes xs) + 1"
proof (induction xs arbitrary: i)
  case Nil
  then show ?case by simp
next
  case (Cons x xs)
  then show ?case by (cases i) simp_all
qed

lemma totalVotes_add_vote:
  "i < length (options p) \<Longrightarrow> totalVotes (add_vote i p) = totalVotes p + 1"
  using sum_list_votes_bump [of i "options p"]
  by (simp add: totalVotes_sum_list add_vote_def)

lemma votes_add_vote:
  "i < length (options p) \<Longrightarrow>
   map votes (options (add_vote i p)) = (map votes (options p))[i := votes (options p ! i) + 1]"
  by (simp add: add_vote_def map_update)

lemma poll_id_add_vote [simp]: "poll_id (add_vote i p) = poll_id p"
  by (simp add: add_vote_def)

lemma status_add_vote [simp]: "status (add_vote i p) = status p"
  by (simp add: add_vote_def)

subsection \<open>The example state\<close>

lemmas demo_defs =
  demo_state_def run_def initial_state_def connection_def studentJoin_def createPoll_def
  findOne_def emit_def emitStudentListUpdate_def poll_is_active_def Let_def new_poll_def
  demo_poll_data_def demo_poll_def demo_student_def getActiveStudents_def
  student_view_def document_view_def valid_student_def

lemma demo_students: "students demo_state = [demo_student]"
  by (simp add: demo_defs)

lemma demo_current: "currentActivePoll demo_state = Some demo_poll"
  by (simp add: demo_defs)

lemma demo_socket: "socketStudentId demo_state ''a'' = Some ''A''"
  by (simp add: demo_defs)

lemma demo_count: "answeredStudentsCount demo_state = 0"
  by (simp add: demo_defs)

lemma demo_outbox:
  "outbox demo_state =
     [(ToSocket ''a'', NewPoll None),
      (ToAll, StudentListUpdate [demo_student]),
      (ToAll, NewPoll (Some (student_view demo_poll))),
      (ToAll, PollUpdate \<lparr>pu_poll = document_view demo_poll, pu_totalVoters = None,
                          pu_answeredCount = 0, pu_totalStudents = 1\<rparr>),
      (ToAll, StudentListUpdate [demo_student])]"
  by (simp add: demo_defs)

lemma demo_student_valid: "valid_student demo_student"
  by (simp add: valid_student_def demo_student_def)

lemma valid_student_hasAnswered [simp]:
  "valid_student (st\<lparr>hasAnswered := b\<rparr>) = valid_student st"
  by (simp add: valid_student_def)

lemma demo_accepts: "accepts_vote demo_state ''a'' ''p1'' ''A'' ''4'' demo_poll demo_student 0"
  by (simp add: accepts_vote_def demo_students demo_current demo_socket findOne_def)
     (simp add: demo_poll_def demo_student_def)

subsection \<open>The branches of submitAnswer\<close>

lemma submitAnswer_accepted:
  assumes "accepts_vote s sock pollId sid answer p st i" and "valid_student st"
      and "fail \<noteq> Some 0" "fail \<noteq> Some 1" "fail \<noteq> Some 2" "fail \<noteq> Some 3"
  shows "submitAnswer s sock pollId sid answer fail =
           emitStudentListUpdate (fail = Some 4)
             (emit ToAll
                (PollUpdate
                   \<lparr>pu_poll = stats_view (add_vote i p),
                    pu_totalVoters = Some (totalVotes (add_vote i p)),
                    pu_answeredCount = answeredStudentsCount s + 1,
                    pu_totalStudents =
                      length (getActiveStudents
                        (save_student (st\<lparr>hasAnswered := True\<rparr>) (students s)))\<rparr>)
                (voted s sock pollId sid p st i))"
  using assms by (simp add: accepts_vote_def submitAnswer_def voted_def Let_def)

lemma submitAnswer_answered:
  assumes "socketStudentId s sock = Some sid" "currentActivePoll s = Some p"
      and "poll_id p = pollId" "fail \<noteq> Some 0"
      and "findOne sid (students s) = None \<or>
           (\<exists>st. findOne sid (students s) = Some st \<and> hasAnswered st)"
  shows "submitAnswer s sock pollId sid answer fail =
           emit (ToSocket sock) (ErrorMsg msg_already_answered) s"
  using assms by (auto simp add: submitAnswer_def)

lemma submitAnswer_cases:
  assumes "socketStudentId s sock = Some sid" "currentActivePoll s = Some p"
      and "poll_id p = pollId"
  shows "(\<exists>st i. accepts_vote s sock pollId sid answer p st i) \<or>
         (\<exists>m. submitAnswer s sock pollId sid answer None = emit (ToSocket sock) (ErrorMsg m) s)"
  using assms by (auto simp add: accepts_vote_def submitAnswer_def split: option.split)

lemma submitAnswer_outbox:
  "(\<exists>m. outbox (submitAnswer s sock pollId sid answer fail) =
          outbox s @ [(ToSocket sock, ErrorMsg m)]) \<or>
   (\<exists>p i u rest. currentActivePoll s = Some p \<and>
      findIndex (\<lambda>opt. opt_text opt = answer) (options p) = Some i \<and>
      pu_poll u = stats_view (add_vote i p) \<and>
      pu_totalVoters u = Some (totalVotes (add_vote i p)) \<and>
      pu_answeredCount u = answeredStudentsCount s + 1 \<and>
      outbox (submitAnswer s sock pollId sid answer fail) =
        outbox s @ (ToAll, PollUpdate u) # rest \<and>
      (\<forall>x \<in> set rest. \<exists>l. x = (ToAll, StudentListUpdate l)))"
  by (simp add: submitAnswer_def emit_def emitStudentListUpdate_def Let_def split: option.split)

text \<open>
  C10. In the result update computed after an accepted vote the divisor \<open>totalVotes\<close> is
  at least 1: every \<open>pollUpdate\<close> that \<open>submitAnswer\<close> adds to the emitted messages
  carries \<open>totalVoters = n\<close> with \<open>n \<ge> 1\<close>, and each option's percentage is
  \<open>Math.round((votes / n) * 100)\<close> with that \<open>n\<close>, a finite number (neither \<open>NaN\<close>
  nor \<open>Infinity\<close>, the results of a division by zero in JavaScript).
\<close>

theorem vote_update_divisor_positive:
  assumes "(t, PollUpdate u) \<in> set (outbox (submitAnswer s sock pollId sid answer fail))"
      and "(t, PollUpdate u) \<notin> set (outbox s)"
  shows "\<exists>n. pu_totalVoters u = Some n \<and> 1 \<le> n \<and>
           (\<forall>ov \<in> set (pv_options (pu_poll u)).
              \<exists>v k. ov_votes ov = Some v \<and> ov_percentage ov = Some (percentage_of v n) \<and>
                    percentage_of v n = Fin k)"
proof -
  from submitAnswer_outbox [of s sock pollId sid answer fail]
  consider (err) m where
      "outbox (submitAnswer s sock pollId sid answer fail) =
         outbox s @ [(ToSocket sock, ErrorMsg m)]"
    | (vote) p i u' rest where
      "currentActivePoll s = Some p"
      "findIndex (\<lambda>opt. opt_text opt = answer) (options p) = Some i"
      "pu_poll u' = stats_view (add_vote i p)"
      "pu_totalVoters u' = Some (totalVotes (add_vote i p))"
      "outbox (submitAnswer s sock pollId sid answer fail) =
         outbox s @ (ToAll, PollUpdate u') # rest"
      "\<forall>x \<in> set rest. \<exists>l. x = (ToAll, StudentListUpdate l)"
    by blast
  then show ?thesis
  proof cases
    case err
    with assms show ?thesis by auto
  next
    case vote
    with assms have u: "u = u'" by auto
    from vote(2) have i: "i < length (options p)" by (simp add: findIndex_Some)
    then have n: "1 \<le> totalVotes (add_vote i p)" by (simp add: totalVotes_add_vote)
    have "\<forall>ov \<in> set (pv_options (pu_poll u')).
            \<exists>v k. ov_votes ov = Some v \<and>
                  ov_percentage ov = Some (percentage_of v (totalVotes (add_vote i p))) \<and>
                  percentage_of v (totalVotes (add_vote i p)) = Fin k"
      using n by (auto simp add: vote(3) stats_view_def optionsWithStats_def percentage_of_def)
    with n vote(4) u show ?thesis by auto
  qed
qed

theorem vote_update_divisor_positive_witness:
  "(ToAll, PollUpdate
      \<lparr>pu_poll = stats_view (add_vote 0 demo_poll), pu_totalVoters = Some 1,
       pu_answeredCount = 1, pu_totalStudents = 1\<rparr>)
     \<in> set (outbox (submitAnswer demo_state ''a'' ''p1'' ''A'' ''4'' None)) \<and>
   (ToAll, PollUpdate
      \<lparr>pu_poll = stats_view (add_vote 0 demo_poll), pu_totalVoters = Some 1,
       pu_answeredCount = 1, pu_totalStudents = 1\<rparr>) \<notin> set (outbox demo_state) \<and>
   (\<exists>n. pu_totalVoters
           \<lparr>pu_poll = stats_view (add_vote 0 demo_poll), pu_totalVoters = Some 1,
            pu_answeredCount = 1, pu_totalStudents = 1\<rparr> = Some n \<and> 1 \<le> n)"
proof -
  let ?u = "\<lparr>pu_poll = stats_view (add_vote 0 demo_poll), pu_totalVoters = Some 1,
             pu_answeredCount = 1, pu_totalStudents = 1\<rparr>"
  have tv: "totalVotes (add_vote 0 demo_poll) = 1"
    by (simp add: demo_poll_def totalVotes_def add_vote_def)
  have h1: "(ToAll, PollUpdate ?u)
              \<in> set (outbox (submitAnswer demo_state ''a'' ''p1'' ''A'' ''4'' None))"
    by (simp add: submitAnswer_accepted [OF demo_accepts demo_student_valid]
        emitStudentListUpdate_def emit_def
        voted_def demo_count demo_students tv getActiveStudents_def demo_student_def)
  have h2: "(ToAll, PollUpdate ?u) \<notin> set (outbox demo_state)"
    by (simp add: demo_outbox)
  from vote_update_divisor_positive [OF h1 h2]
  have "\<exists>n. pu_totalVoters ?u = Some n \<and> 1 \<le> n"
    by blast
  with h1 h2 show ?thesis
    by blast
qed

subsection \<open>Percentages at 23 and 17 votes of 40\<close>

lemma percentage_23_of_40: "percentage_of 23 40 = Fin 57"
proof -
  have b1: "bits 23 = 5" "bits 40 = 6"
    by (simp_all add: bits.simps)
  have q: "js_div 23 40 = (5179139571476070, - 53)"
    by (simp add: js_div_def round53_def rne_div_def Let_def b1)
  have b2: "bits 517913957147607000 = 59" "bits 9007199254740992 = 54"
    by (simp_all add: bits.simps)
  have m: "js_mul (5179139571476070, - 53) 100 = (8092405580431359, - 47)"
    by (simp add: js_mul_def round53_def rne_div_def Let_def b2)
  have r: "Math_round (8092405580431359, - 47) = 57"
    by (simp add: Math_round_def)
  show ?thesis
    by (simp add: percentage_of_def q m r)
qed

lemma percentage_17_of_40: "percentage_of 17 40 = Fin 43"
proof -
  have b1: "bits 17 = 5" "bits 40 = 6"
    by (simp_all add: bits.simps)
  have q: "js_div 17 40 = (7656119366529843, - 54)"
    by (simp add: js_div_def round53_def rne_div_def Let_def b1)
  have b2: "bits 765611936652984300 = 60" "bits 18014398509481984 = 55"
    by (simp_all add: bits.simps)
  have m: "js_mul (7656119366529843, - 54) 100 = (5981343255101440, - 47)"
    by (simp add: js_mul_def round53_def rne_div_def Let_def b2)
  have r: "Math_round (5981343255101440, - 47) = 43"
    by (simp add: Math_round_def)
  show ?thesis
    by (simp add: percentage_of_def q m r)
qed

lemma spec_percentage_23_of_40: "spec_percentage 23 40 = 58"
  by (simp add: spec_percentage_def round_def)

lemma spec_percentage_17_of_40: "spec_percentage 17 40 = 43"
  by (simp add: spec_percentage_def round_def)

lemma endPoll_broadcast:
  assumes "currentActivePoll s = Some p" and "fail \<noteq> Some 0"
  shows "\<exists>rest. outbox (fst (endPoll s (Some (poll_id p)) now fail)) =
           outbox s @
           (ToAll, PollEnded (finalResults (p\<lparr>status := Completed, completedAt := Some now\<rparr>))
                     (sum_list (map votes (options p)))) # rest"
  using assms
  by (simp add: endPoll_def Let_def emit_def emitStudentListUpdate_def totalVotes_sum_list)

lemma finalResults_no_votes:
  "totalVotes p = 0 \<Longrightarrow>
   \<forall>ov \<in> set (pv_options (finalResults p)). ov_percentage ov = Some (Fin 0)"
  by (simp add: finalResults_def)

lemma demo_state_createPoll:
  "demo_state = createPoll joined_state ''t'' demo_poll_data ''p1'' 2 None"
  by (simp add: demo_state_def joined_state_def run_def)

lemma joined_outbox:
  "outbox joined_state =
     [(ToSocket ''a'', NewPoll None), (ToAll, StudentListUpdate [demo_student])]"
  by (simp add: joined_state_def demo_defs)

text \<open>
  C3. \<open>createPoll\<close> while a poll is active (\<open>currentActivePoll\<close> holds a poll whose
  status is \<open>active\<close>) only sends the error notice "A poll is already active ..." to
  the calling socket: the result is the state before with that one message added, so
  no poll is created in the store, the active poll and each of its vote counts are the
  same, and so are the timer, the counter and the students.
\<close>

theorem createPoll_while_active:
  assumes "currentActivePoll s = Some p" and "status p = Active"
  shows "createPoll s sock pollData newId now fail =
           s\<lparr>outbox := outbox s @ [(ToSocket sock, ErrorMsg msg_already_active)]\<rparr> \<and>
         currentActivePoll (createPoll s sock pollData newId now fail) = Some p \<and>
         polls (createPoll s sock pollData newId now fail) = polls s \<and>
         answeredStudentsCount (createPoll s sock pollData newId now fail) =
           answeredStudentsCount s"
  using assms by (simp add: createPoll_def poll_is_active_def emit_def)

theorem createPoll_while_active_witness:
  "currentActivePoll demo_state = Some demo_poll \<and> status demo_poll = Active \<and>
   createPoll demo_state ''t'' demo_poll_data ''p2'' 9 None =
     demo_state\<lparr>outbox := outbox demo_state @ [(ToSocket ''t'', ErrorMsg msg_already_active)]\<rparr> \<and>
   currentActivePoll (createPoll demo_state ''t'' demo_poll_data ''p2'' 9 None) =
     Some demo_poll"
proof -
  have h: "status demo_poll = Active"
    by (simp add: demo_poll_def)
  from createPoll_while_active [OF demo_current h, of "''t''" demo_poll_data "''p2''" 9 None]
    demo_current h
  show ?thesis by simp
qed

text \<open>
  C5. \<open>endPoll\<close> called while there is no current poll, or with an id that is not the
  id of the current poll, returns at its first check: the helper does not throw, and
  the state after the \<open>endPoll\<close> event is the state before, the same in every
  component (the store is not written, the three variables are the same, nothing is
  emitted, hence no \<open>pollEnded\<close>). The timer callback with no current poll changes
  nothing either.
\<close>

theorem endPoll_wrong_or_idle:
  "(currentActivePoll s = None \<longrightarrow>
      endPoll s pollId now fail = (s, False) \<and>
      endPollHandler s sock pollId now fail = s \<and>
      timerFires s now fail = s) \<and>
   (\<forall>p. currentActivePoll s = Some p \<and> poll_id p \<noteq> i \<longrightarrow>
      endPoll s (Some i) now fail = (s, False) \<and>
      endPollHandler s sock (Some i) now fail = s)"
  by (auto simp add: endPoll_def endPollHandler_def timerFires_def split: option.splits)

theorem endPoll_wrong_or_idle_witness:
  "currentActivePoll initial_state = None \<and>
   endPollHandler initial_state ''t'' (Some ''p1'') 5 None = initial_state \<and>
   timerFires initial_state 5 None = initial_state \<and>
   currentActivePoll demo_state = Some demo_poll \<and> poll_id demo_poll \<noteq> ''p0'' \<and>
   endPoll demo_state (Some ''p0'') 5 None = (demo_state, False) \<and>
   endPollHandler demo_state ''t'' (Some ''p0'') 5 None = demo_state"
proof -
  have h1: "currentActivePoll initial_state = None"
    by (simp add: initial_state_def)
  have h2: "poll_id demo_poll \<noteq> ''p0''"
    by (simp add: demo_poll_def)
  from endPoll_wrong_or_idle [of initial_state "Some ''p1''" 5 None "''t''" "''p1''"]
    endPoll_wrong_or_idle [of demo_state "Some ''p0''" 5 None "''t''" "''p0''"]
    h1 h2 demo_current
  show ?thesis by simp
qed

text \<open>
  C6, at the creation of a poll. The three messages that \<open>createPoll\<close> emits for the poll
  of the example, with one student connected: the \<open>newPoll\<close> notice, the \<open>pollUpdate\<close>
  and the student list. The \<open>pollUpdate\<close> holds the poll document (per option its text,
  flag and vote count 0), \<open>answeredCount\<close> and \<open>totalStudents\<close>; it has no
  \<open>totalVoters\<close> and no option of it has a \<open>percentage\<close>, the two fields that the
  \<open>pollUpdate\<close> after a vote carries.
\<close>

theorem createPoll_update_payload:
  "drop (length (outbox joined_state))
     (outbox (createPoll joined_state ''t'' demo_poll_data ''p1'' 2 None)) =
     [(ToAll, NewPoll (Some
         \<lparr>pv_id = ''p1'', pv_question = ''2+2?'',
          pv_options = [\<lparr>ov_text = ''4'', ov_isCorrect = True, ov_votes = None,
                          ov_percentage = None\<rparr>,
                        \<lparr>ov_text = ''5'', ov_isCorrect = False, ov_votes = None,
                          ov_percentage = None\<rparr>],
          pv_duration = 30, pv_startTime = 2, pv_status = None, pv_completedAt = None\<rparr>)),
      (ToAll, PollUpdate
         \<lparr>pu_poll =
            \<lparr>pv_id = ''p1'', pv_question = ''2+2?'',
             pv_options = [\<lparr>ov_text = ''4'', ov_isCorrect = True, ov_votes = Some 0,
                             ov_percentage = None\<rparr>,
                           \<lparr>ov_text = ''5'', ov_isCorrect = False, ov_votes = Some 0,
                             ov_percentage = None\<rparr>],
             pv_duration = 30, pv_startTime = 2, pv_status = Some Active,
             pv_completedAt = None\<rparr>,
          pu_totalVoters = None, pu_answeredCount = 0, pu_totalStudents = 1\<rparr>),
      (ToAll, StudentListUpdate
         [\<lparr>socketId = Some ''a'', studentId = ''A'', name = ''Ann'', lastSeen = 1,
           hasAnswered = False, kicked = False\<rparr>])]"
  by (simp add: demo_state_createPoll [symmetric] demo_outbox joined_outbox)
     (simp add: student_view_def document_view_def demo_poll_def demo_student_def)

text \<open>
  C4, at a poll closed with 23 and 17 votes. Whatever the rest of the state is,
  \<open>endPoll\<close> broadcasts \<open>pollEnded\<close> with \<open>totalVoters = 40\<close>, the sum of the vote
  counts, and the percentages 57 and 43: \<open>23 / 40\<close> is the double
  \<open>5179139571476070 * 2 ^ -53\<close>, just below 0.575, its product with 100 is the double
  \<open>8092405580431359 * 2 ^ -47 = 57.49999999999999\<close>, and \<open>Math.round\<close> of it is 57.
  The exact value of \<open>100 * 23 / 40\<close> is 57.5, and \<open>round\<close> of it is 58.
\<close>

theorem endPoll_percentage_23_of_40:
  "outbox (fst (endPoll (s\<lparr>currentActivePoll := Some tally_poll\<rparr>) (Some ''p1'') now None)) =
     outbox s @
     [(ToAll, PollEnded
         \<lparr>pv_id = ''p1'', pv_question = ''2+2?'',
          pv_options = [\<lparr>ov_text = ''4'', ov_isCorrect = True, ov_votes = Some 23,
                          ov_percentage = Some (Fin 57)\<rparr>,
                        \<lparr>ov_text = ''5'', ov_isCorrect = False, ov_votes = Some 17,
                          ov_percentage = Some (Fin 43)\<rparr>],
          pv_duration = 30, pv_startTime = 2, pv_status = Some Completed,
          pv_completedAt = Some now\<rparr> 40),
      (ToAll, StudentListUpdate
         (getActiveStudents (map (\<lambda>st. st\<lparr>hasAnswered := False\<rparr>) (students s))))] \<and>
   spec_percentage 23 40 = 58 \<and> spec_percentage 17 40 = 43"
proof -
  have tv: "totalVotes (tally_poll\<lparr>status := Completed, completedAt := Some now\<rparr>) = 40"
    by (simp add: totalVotes_def tally_poll_def)
  have fr: "finalResults (tally_poll\<lparr>status := Completed, completedAt := Some now\<rparr>) =
      \<lparr>pv_id = ''p1'', pv_question = ''2+2?'',
       pv_options = [\<lparr>ov_text = ''4'', ov_isCorrect = True, ov_votes = Some 23,
                       ov_percentage = Some (Fin 57)\<rparr>,
                     \<lparr>ov_text = ''5'', ov_isCorrect = False, ov_votes = Some 17,
                       ov_percentage = Some (Fin 43)\<rparr>],
       pv_duration = 30, pv_startTime = 2, pv_status = Some Completed,
       pv_completedAt = Some now\<rparr>"
    by (simp add: finalResults_def tv)
       (simp add: tally_poll_def percentage_23_of_40 percentage_17_of_40)
  have id: "poll_id tally_poll = ''p1''"
    by (simp add: tally_poll_def)
  show ?thesis
    by (simp add: endPoll_def Let_def id tv fr emit_def emitStudentListUpdate_def
        spec_percentage_23_of_40 spec_percentage_17_of_40)
qed

subsection \<open>Looking a student up after a store update\<close>

lemma findOne_save_student:
  "findOne sid' (save_student d xs) =
     (if sid' = studentId d \<and> findOne sid' xs \<noteq> None then Some d else findOne sid' xs)"
  by (induction xs) (auto simp add: findOne_def)

lemma findOne_studentId: "findOne sid xs = Some st \<Longrightarrow> studentId st = sid"
  by (induction xs) (auto simp add: findOne_def split: if_splits)

lemma findOne_updateOne_offline:
  "map_option hasAnswered (findOne sid (updateOne_offline k now xs)) =
   map_option hasAnswered (findOne sid xs)"
  by (induction xs) (auto simp add: findOne_def)

lemma findOne_append_new:
  "findOne sid' (xs @ [d]) =
     (case findOne sid' xs of
        Some st \<Rightarrow> Some st
      | None \<Rightarrow> if studentId d = sid' then Some d else None)"
  by (induction xs) (auto simp add: findOne_def)

subsection \<open>Repeated submissions\<close>

lemma submitAll_Cons:
  "submitAll s pollId sid ((sock, answer) # calls) =
   submitAll (submitAnswer s sock pollId sid answer None) pollId sid calls"
  by (simp add: submitAll_def)

lemma submitAll_snoc:
  "submitAll s pollId sid (calls @ [(sock, answer)]) =
   submitAnswer (submitAll s pollId sid calls) sock pollId sid answer None"
  by (simp add: submitAll_def)

lemma submitAll_answered:
  assumes "currentActivePoll s = Some p" "poll_id p = pollId"
      and "\<forall>(sock, answer) \<in> set calls. socketStudentId s sock = Some sid"
      and "findOne sid (students s) = None \<or>
           (\<exists>st. findOne sid (students s) = Some st \<and> hasAnswered st)"
  shows "submitAll s pollId sid calls =
           s\<lparr>outbox := outbox s @
               map (\<lambda>(sock, answer). (ToSocket sock, ErrorMsg msg_already_answered)) calls\<rparr>"
  using assms
proof (induction calls arbitrary: s)
  case Nil
  then show ?case by (simp add: submitAll_def)
next
  case (Cons c calls)
  obtain sock answer where c: "c = (sock, answer)" by (cases c)
  let ?s1 = "emit (ToSocket sock) (ErrorMsg msg_already_answered) s"
  from Cons.prems c have b: "socketStudentId s sock = Some sid" by simp
  have s1: "submitAnswer s sock pollId sid answer None = ?s1"
    using submitAnswer_answered [OF b Cons.prems(1) Cons.prems(2) _ Cons.prems(4)] by simp
  have "submitAll ?s1 pollId sid calls =
          ?s1\<lparr>outbox := outbox ?s1 @
              map (\<lambda>(sock, answer). (ToSocket sock, ErrorMsg msg_already_answered)) calls\<rparr>"
    using Cons.prems by (intro Cons.IH) (auto simp add: emit_def)
  then show ?case
    by (simp add: c submitAll_Cons s1 emit_def)
qed

subsection \<open>A store operation fails\<close>

lemma submitAnswer_fails_at_0:
  assumes "socketStudentId s sock = Some sid" "currentActivePoll s = Some p"
      and "poll_id p = pollId"
  shows "submitAnswer s sock pollId sid answer (Some 0) =
           emit (ToSocket sock) (ErrorMsg msg_submit_failed) s"
  using assms by (simp add: submitAnswer_def)


lemma submitAnswer_fails_at_2:
  assumes "accepts_vote s sock pollId sid answer p st i"
  shows "submitAnswer s sock pollId sid answer (Some 2) =
           emit (ToSocket sock) (ErrorMsg msg_submit_failed)
             (s\<lparr>currentActivePoll := Some (add_vote i p),
                polls := (polls s)(pollId \<mapsto> add_vote i p)\<rparr>)"
  using assms by (simp add: accepts_vote_def submitAnswer_def Let_def)


lemma submitAnswer_invalid_student:
  assumes "accepts_vote s sock pollId sid answer p st i" and "\<not> valid_student st"
      and "fail \<noteq> Some 0" and "fail \<noteq> Some 1"
  shows "submitAnswer s sock pollId sid answer fail =
           emit (ToSocket sock) (ErrorMsg msg_submit_failed)
             (s\<lparr>currentActivePoll := Some (add_vote i p),
                polls := (polls s)(pollId \<mapsto> add_vote i p)\<rparr>)"
  using assms by (simp add: accepts_vote_def submitAnswer_def Let_def)




lemma add_vote_demo_poll:
  "add_vote 0 demo_poll =
     demo_poll\<lparr>options := [\<lparr>opt_text = ''4'', isCorrect = True, votes = 1\<rparr>,
                             \<lparr>opt_text = ''5'', isCorrect = False, votes = 0\<rparr>]\<rparr>"
  by (simp add: add_vote_def demo_poll_def)




lemma submitAll_answered_eq:
  assumes "currentActivePoll s = Some p" "poll_id p = pollId"
      and "\<forall>(sock, answer) \<in> set calls. socketStudentId s sock = Some sid"
      and "findOne sid (students s) = None \<or>
           (\<exists>st. findOne sid (students s) = Some st \<and> hasAnswered st)"
  shows "submitAll s pollId sid calls = with_already_answered s calls"
  using submitAll_answered [OF assms] by (simp add: with_already_answered_def)

lemma accepted_then_answered:
  assumes acc: "accepts_vote s sock pollId sid answer p st i" and valid: "valid_student st"
      and bound: "\<forall>(sock, answer) \<in> set calls. socketStudentId s sock = Some sid"
  shows "submitAll (submitAnswer s sock pollId sid answer None) pollId sid calls =
           with_already_answered (submitAnswer s sock pollId sid answer None) calls"
proof (rule submitAll_answered_eq [where p = "add_vote i p"])
  let ?s1 = "submitAnswer s sock pollId sid answer None"
  have s1: "?s1 =
      emitStudentListUpdate False
        (emit ToAll
           (PollUpdate
              \<lparr>pu_poll = stats_view (add_vote i p),
               pu_totalVoters = Some (totalVotes (add_vote i p)),
               pu_answeredCount = answeredStudentsCount s + 1,
               pu_totalStudents =
                 length (getActiveStudents
                   (save_student (st\<lparr>hasAnswered := True\<rparr>) (students s)))\<rparr>)
           (voted s sock pollId sid p st i))"
    using submitAnswer_accepted [OF acc valid, of None] by simp
  show "currentActivePoll ?s1 = Some (add_vote i p)"
    by (simp add: s1 emitStudentListUpdate_def emit_def voted_def)
  show "poll_id (add_vote i p) = pollId"
    using acc by (simp add: accepts_vote_def)
  show "\<forall>(sock, answer) \<in> set calls. socketStudentId ?s1 sock = Some sid"
    using bound by (simp add: s1 emitStudentListUpdate_def emit_def voted_def)
  from acc have f: "findOne sid (students s) = Some st"
    by (simp add: accepts_vote_def)
  then have "studentId st = sid"
    by (rule findOne_studentId)
  with f have "findOne sid (students ?s1) = Some (st\<lparr>hasAnswered := True\<rparr>)"
    by (simp add: s1 emitStudentListUpdate_def emit_def voted_def findOne_save_student)
  then show "findOne sid (students ?s1) = None \<or>
        (\<exists>st. findOne sid (students ?s1) = Some st \<and> hasAnswered st)"
    by simp
qed

lemma submitAnswer_accepted_fields:
  assumes acc: "accepts_vote s sock pollId sid answer p st i" and valid: "valid_student st"
  shows "currentActivePoll (submitAnswer s sock pollId sid answer None) = Some (add_vote i p) \<and>
         answeredStudentsCount (submitAnswer s sock pollId sid answer None) =
           answeredStudentsCount s + 1"
  using submitAnswer_accepted [OF acc valid, of None]
  by (simp add: emitStudentListUpdate_def emit_def voted_def)

text \<open>
  C1, amended: no store operation fails during the calls, and the stored record of the
  respondent, if there is one, passes the validation of \<open>save()\<close> (its \<open>socketId\<close> is
  not null, its id and name are not empty). \<open>calls\<close> are the \<open>submitAnswer\<close> calls of
  one respondent \<open>sid\<close> for the current poll \<open>p\<close>, in order, each from a socket bound
  to \<open>sid\<close>. Either none of them is accepted, and the poll and the counter are as
  before; or exactly one call \<open>(sock, answer)\<close> is: the calls before it left the poll
  as it was, this call added one vote to the option \<open>i\<close> with the text \<open>answer\<close> and
  to no other and one to the counter, and the calls after it changed nothing and were
  each answered by the "already answered" notice.
\<close>

theorem one_vote_per_respondent:
  assumes "currentActivePoll s = Some p" and "poll_id p = pollId"
      and "\<forall>(sock, answer) \<in> set calls. socketStudentId s sock = Some sid"
      and "\<forall>st. findOne sid (students s) = Some st \<longrightarrow> valid_student st"
  shows "(currentActivePoll (submitAll s pollId sid calls) = Some p \<and>
          answeredStudentsCount (submitAll s pollId sid calls) = answeredStudentsCount s) \<or>
         (\<exists>pre sock answer post i.
            calls = pre @ (sock, answer) # post \<and>
            currentActivePoll (submitAll s pollId sid pre) = Some p \<and>
            findIndex (\<lambda>opt. opt_text opt = answer) (options p) = Some i \<and>
            currentActivePoll (submitAll s pollId sid calls) = Some (add_vote i p) \<and>
            map votes (options (add_vote i p)) =
              (map votes (options p))[i := votes (options p ! i) + 1] \<and>
            answeredStudentsCount (submitAll s pollId sid calls) = answeredStudentsCount s + 1 \<and>
            submitAll s pollId sid calls =
              with_already_answered (submitAll s pollId sid (pre @ [(sock, answer)])) post)"
  using assms
proof (induction calls arbitrary: s)
  case Nil
  then show ?case by (simp add: submitAll_def)
next
  case (Cons c calls)
  obtain sock answer where c: "c = (sock, answer)" by (cases c)
  let ?s1 = "submitAnswer s sock pollId sid answer None"
  from Cons.prems c have b: "socketStudentId s sock = Some sid" by simp
  from Cons.prems have bound: "\<forall>(sock, answer) \<in> set calls. socketStudentId s sock = Some sid"
    by simp
  have step: "submitAll s pollId sid (c # cs) = submitAll ?s1 pollId sid cs" for cs
    by (simp add: c submitAll_Cons)
  from submitAnswer_cases [OF b Cons.prems(1) Cons.prems(2), of answer]
  consider (accepted) st i where "accepts_vote s sock pollId sid answer p st i"
    | (rejected) m where "?s1 = emit (ToSocket sock) (ErrorMsg m) s"
    by blast
  then show ?case
  proof cases
    case accepted
    then have valid: "valid_student st"
      using Cons.prems(4) by (simp add: accepts_vote_def)
    note fields = submitAnswer_accepted_fields [OF accepted valid]
    from accepted have idx: "findIndex (\<lambda>opt. opt_text opt = answer) (options p) = Some i"
      by (simp add: accepts_vote_def)
    then have i: "i < length (options p)"
      by (simp add: findIndex_Some)
    have rest: "submitAll ?s1 pollId sid calls = with_already_answered ?s1 calls"
      by (rule accepted_then_answered [OF accepted valid bound])
    have single: "submitAll s pollId sid [(sock, answer)] = ?s1"
      by (simp add: submitAll_def)
    have "c # calls = [] @ (sock, answer) # calls"
      by (simp add: c)
    moreover have "currentActivePoll (submitAll s pollId sid []) = Some p"
      using Cons.prems(1) by (simp add: submitAll_def)
    moreover have "currentActivePoll (submitAll s pollId sid (c # calls)) = Some (add_vote i p)"
      by (simp add: step rest with_already_answered_def fields)
    moreover have "map votes (options (add_vote i p)) =
        (map votes (options p))[i := votes (options p ! i) + 1]"
      using i by (rule votes_add_vote)
    moreover have "answeredStudentsCount (submitAll s pollId sid (c # calls)) =
        answeredStudentsCount s + 1"
      by (simp add: step rest with_already_answered_def fields)
    moreover have "submitAll s pollId sid (c # calls) =
        with_already_answered (submitAll s pollId sid ([] @ [(sock, answer)])) calls"
      by (simp add: step rest single)
    ultimately show ?thesis
      using idx by blast
  next
    case rejected
    have cur1: "currentActivePoll ?s1 = Some p"
      using Cons.prems(1) by (simp add: rejected emit_def)
    have cnt1: "answeredStudentsCount ?s1 = answeredStudentsCount s"
      by (simp add: rejected emit_def)
    have bound1: "\<forall>(sock, answer) \<in> set calls. socketStudentId ?s1 sock = Some sid"
      using bound by (simp add: rejected emit_def)
    have valid1: "\<forall>st. findOne sid (students ?s1) = Some st \<longrightarrow> valid_student st"
      using Cons.prems(4) by (simp add: rejected emit_def)
    from Cons.IH [OF cur1 Cons.prems(2) bound1 valid1]
    show ?thesis
    proof (elim disjE exE conjE)
      assume "currentActivePoll (submitAll ?s1 pollId sid calls) = Some p"
        and "answeredStudentsCount (submitAll ?s1 pollId sid calls) = answeredStudentsCount ?s1"
      then show ?thesis
        by (simp add: step cnt1)
    next
      fix pre k a post i
      assume split: "calls = pre @ (k, a) # post"
        and before: "currentActivePoll (submitAll ?s1 pollId sid pre) = Some p"
        and idx: "findIndex (\<lambda>opt. opt_text opt = a) (options p) = Some i"
        and after: "currentActivePoll (submitAll ?s1 pollId sid calls) = Some (add_vote i p)"
        and vs: "map votes (options (add_vote i p)) =
                   (map votes (options p))[i := votes (options p ! i) + 1]"
        and cnt: "answeredStudentsCount (submitAll ?s1 pollId sid calls) =
                   answeredStudentsCount ?s1 + 1"
        and rest: "submitAll ?s1 pollId sid calls =
                   with_already_answered (submitAll ?s1 pollId sid (pre @ [(k, a)])) post"
      have "c # calls = (c # pre) @ (k, a) # post"
        by (simp add: split)
      moreover have "currentActivePoll (submitAll s pollId sid (c # pre)) = Some p"
        by (simp add: step before)
      moreover have "currentActivePoll (submitAll s pollId sid (c # calls)) = Some (add_vote i p)"
        by (simp add: step after)
      moreover have "answeredStudentsCount (submitAll s pollId sid (c # calls)) =
          answeredStudentsCount s + 1"
        by (simp add: step cnt cnt1)
      moreover have "submitAll s pollId sid (c # calls) =
          with_already_answered (submitAll s pollId sid ((c # pre) @ [(k, a)])) post"
        using rest step [of calls] step [of "pre @ [(k, a)]"] by simp
      ultimately show ?thesis
        using idx vs by blast
    qed
  qed
qed


theorem one_vote_per_respondent_witness:
  "currentActivePoll demo_state = Some demo_poll \<and> poll_id demo_poll = ''p1'' \<and>
   socketStudentId demo_state ''a'' = Some ''A'' \<and>
   findOne ''A'' (students demo_state) = Some demo_student \<and> valid_student demo_student \<and>
   ((currentActivePoll (submitAll demo_state ''p1'' ''A'' [(''a'', ''4''), (''a'', ''5'')]) =
       Some demo_poll \<and>
     answeredStudentsCount (submitAll demo_state ''p1'' ''A'' [(''a'', ''4''), (''a'', ''5'')]) =
       answeredStudentsCount demo_state) \<or>
    (\<exists>pre sock answer post i.
       [(''a'', ''4''), (''a'', ''5'')] = pre @ (sock, answer) # post \<and>
       currentActivePoll (submitAll demo_state ''p1'' ''A'' pre) = Some demo_poll \<and>
       findIndex (\<lambda>opt. opt_text opt = answer) (options demo_poll) = Some i \<and>
       currentActivePoll (submitAll demo_state ''p1'' ''A'' [(''a'', ''4''), (''a'', ''5'')]) =
         Some (add_vote i demo_poll) \<and>
       map votes (options (add_vote i demo_poll)) =
         (map votes (options demo_poll))[i := votes (options demo_poll ! i) + 1] \<and>
       answeredStudentsCount (submitAll demo_state ''p1'' ''A'' [(''a'', ''4''), (''a'', ''5'')]) =
         answeredStudentsCount demo_state + 1 \<and>
       submitAll demo_state ''p1'' ''A'' [(''a'', ''4''), (''a'', ''5'')] =
         with_already_answered
           (submitAll demo_state ''p1'' ''A'' (pre @ [(sock, answer)])) post))"
proof -
  have h2: "poll_id demo_poll = ''p1''"
    by (simp add: demo_poll_def)
  have h3: "\<forall>(sock, answer) \<in> set [(''a'', ''4''), (''a'', ''5'')].
              socketStudentId demo_state sock = Some ''A''"
    by (simp add: demo_socket)
  have f: "findOne ''A'' (students demo_state) = Some demo_student"
    using demo_accepts by (simp add: accepts_vote_def)
  then have h4: "\<forall>st. findOne ''A'' (students demo_state) = Some st \<longrightarrow> valid_student st"
    by (simp add: demo_student_valid)
  from one_vote_per_respondent [OF demo_current h2 h3 h4] demo_current h2 demo_socket f
    demo_student_valid
  show ?thesis by blast
qed

lemma two_tab_facts:
  "students two_tab_state = [two_tab_student] \<and>
   currentActivePoll two_tab_state = Some two_tab_poll \<and>
   socketStudentId two_tab_state ''a'' = Some ''A'' \<and>
   answeredStudentsCount two_tab_state = 0"
  by (simp add: two_tab_state_def two_tab_student_def two_tab_poll_def run_def
      initial_state_def connection_def studentJoin_def disconnect_def createPoll_def
      findOne_def emit_def emitStudentListUpdate_def poll_is_active_def Let_def new_poll_def
      demo_poll_data_def valid_student_def)

lemma two_tab_student_invalid: "\<not> valid_student two_tab_student"
  by (simp add: valid_student_def two_tab_student_def)

lemma two_tab_accepts:
  "accepts_vote two_tab_state ''a'' ''p1'' ''A'' ''4'' two_tab_poll two_tab_student 0"
  by (simp add: accepts_vote_def two_tab_facts findOne_def)
     (simp add: two_tab_poll_def two_tab_student_def)

lemma two_tab_first_call:
  "submitAnswer two_tab_state ''a'' ''p1'' ''A'' ''4'' None =
     emit (ToSocket ''a'') (ErrorMsg msg_submit_failed)
       (two_tab_state\<lparr>currentActivePoll := Some (add_vote 0 two_tab_poll),
          polls := (polls two_tab_state)(''p1'' \<mapsto> add_vote 0 two_tab_poll)\<rparr>)"
  by (rule submitAnswer_invalid_student [OF two_tab_accepts two_tab_student_invalid]) simp_all

lemma two_tab_second_call:
  "submitAnswer
     (emit (ToSocket ''a'') (ErrorMsg msg_submit_failed)
        (two_tab_state\<lparr>currentActivePoll := Some (add_vote 0 two_tab_poll),
           polls := (polls two_tab_state)(''p1'' \<mapsto> add_vote 0 two_tab_poll)\<rparr>))
     ''a'' ''p1'' ''A'' ''4'' None =
   emit (ToSocket ''a'') (ErrorMsg msg_submit_failed)
     ((emit (ToSocket ''a'') (ErrorMsg msg_submit_failed)
         (two_tab_state\<lparr>currentActivePoll := Some (add_vote 0 two_tab_poll),
            polls := (polls two_tab_state)(''p1'' \<mapsto> add_vote 0 two_tab_poll)\<rparr>))
        \<lparr>currentActivePoll := Some (add_vote 0 (add_vote 0 two_tab_poll)),
          polls := (polls two_tab_state)(''p1'' \<mapsto> add_vote 0 (add_vote 0 two_tab_poll))\<rparr>)"
proof -
  let ?s1 = "emit (ToSocket ''a'') (ErrorMsg msg_submit_failed)
        (two_tab_state\<lparr>currentActivePoll := Some (add_vote 0 two_tab_poll),
           polls := (polls two_tab_state)(''p1'' \<mapsto> add_vote 0 two_tab_poll)\<rparr>)"
  have acc: "accepts_vote ?s1 ''a'' ''p1'' ''A'' ''4'' (add_vote 0 two_tab_poll) two_tab_student 0"
    by (simp add: accepts_vote_def emit_def two_tab_facts findOne_def)
       (simp add: two_tab_student_def add_vote_def two_tab_poll_def)
  from submitAnswer_invalid_student [OF acc two_tab_student_invalid, of None]
  show ?thesis
    by (simp add: emit_def)
qed

lemma two_tab_votes:
  "add_vote 0 two_tab_poll =
     two_tab_poll\<lparr>options := [\<lparr>opt_text = ''4'', isCorrect = True, votes = 1\<rparr>,
                                \<lparr>opt_text = ''5'', isCorrect = False, votes = 0\<rparr>]\<rparr> \<and>
   add_vote 0 (add_vote 0 two_tab_poll) =
     two_tab_poll\<lparr>options := [\<lparr>opt_text = ''4'', isCorrect = True, votes = 2\<rparr>,
                                \<lparr>opt_text = ''5'', isCorrect = False, votes = 0\<rparr>]\<rparr>"
  by (simp add: add_vote_def two_tab_poll_def)

text \<open>
  C1 as it is stated fails, in two ways. (1) A store operation fails: in the example
  state the student \<open>A\<close> submits "4" twice from the socket bound to \<open>A\<close>; in the first
  call the save of the student fails after the vote has been counted and the poll saved,
  the answered flag is not set, and the second call is accepted: the option "4" has two
  votes of one respondent, in memory and in the stored poll. (2) No store operation
  fails, but the stored record of the respondent has \<open>socketId = null\<close> because a second
  socket of the same respondent has disconnected: the save of the student is rejected by
  the validation in every call, after the vote has been counted and the poll saved, so
  each of the two calls counts a vote.
\<close>

theorem vote_counted_twice_after_failed_save:
  "currentActivePoll demo_state = Some demo_poll \<and>
   map votes (options demo_poll) = [0, 0] \<and>
   currentActivePoll (run demo_state [SubmitAnswer ''a'' ''p1'' ''A'' ''4'' (Some 2)]) =
     Some (demo_poll\<lparr>options := [\<lparr>opt_text = ''4'', isCorrect = True, votes = 1\<rparr>,
                                   \<lparr>opt_text = ''5'', isCorrect = False, votes = 0\<rparr>]\<rparr>) \<and>
   currentActivePoll
     (run demo_state [SubmitAnswer ''a'' ''p1'' ''A'' ''4'' (Some 2),
                      SubmitAnswer ''a'' ''p1'' ''A'' ''4'' None]) =
     Some (demo_poll\<lparr>options := [\<lparr>opt_text = ''4'', isCorrect = True, votes = 2\<rparr>,
                                   \<lparr>opt_text = ''5'', isCorrect = False, votes = 0\<rparr>]\<rparr>) \<and>
   polls
     (run demo_state [SubmitAnswer ''a'' ''p1'' ''A'' ''4'' (Some 2),
                      SubmitAnswer ''a'' ''p1'' ''A'' ''4'' None]) ''p1'' =
     Some (demo_poll\<lparr>options := [\<lparr>opt_text = ''4'', isCorrect = True, votes = 2\<rparr>,
                                   \<lparr>opt_text = ''5'', isCorrect = False, votes = 0\<rparr>]\<rparr>) \<and>
   currentActivePoll two_tab_state = Some two_tab_poll \<and>
   map votes (options two_tab_poll) = [0, 0] \<and>
   currentActivePoll
     (run two_tab_state [SubmitAnswer ''a'' ''p1'' ''A'' ''4'' None,
                         SubmitAnswer ''a'' ''p1'' ''A'' ''4'' None]) =
     Some (two_tab_poll\<lparr>options := [\<lparr>opt_text = ''4'', isCorrect = True, votes = 2\<rparr>,
                                      \<lparr>opt_text = ''5'', isCorrect = False, votes = 0\<rparr>]\<rparr>)"
proof -
  let ?s1 = "emit (ToSocket ''a'') (ErrorMsg msg_submit_failed)
               (demo_state\<lparr>currentActivePoll := Some (add_vote 0 demo_poll),
                  polls := (polls demo_state)(''p1'' \<mapsto> add_vote 0 demo_poll)\<rparr>)"
  have e1: "submitAnswer demo_state ''a'' ''p1'' ''A'' ''4'' (Some 2) = ?s1"
    by (rule submitAnswer_fails_at_2 [OF demo_accepts])
  have acc: "accepts_vote ?s1 ''a'' ''p1'' ''A'' ''4'' (add_vote 0 demo_poll) demo_student 0"
    by (simp add: accepts_vote_def emit_def demo_socket demo_students findOne_def)
       (simp add: demo_student_def add_vote_def demo_poll_def)
  have e2: "submitAnswer ?s1 ''a'' ''p1'' ''A'' ''4'' None =
      emitStudentListUpdate False
        (emit ToAll
           (PollUpdate
              \<lparr>pu_poll = stats_view (add_vote 0 (add_vote 0 demo_poll)),
               pu_totalVoters = Some (totalVotes (add_vote 0 (add_vote 0 demo_poll))),
               pu_answeredCount = answeredStudentsCount ?s1 + 1,
               pu_totalStudents =
                 length (getActiveStudents
                   (save_student (demo_student\<lparr>hasAnswered := True\<rparr>) (students ?s1)))\<rparr>)
           (voted ?s1 ''a'' ''p1'' ''A'' (add_vote 0 demo_poll) demo_student 0))"
    using submitAnswer_accepted [OF acc demo_student_valid, of None] by simp
  have twice: "add_vote 0
        (demo_poll\<lparr>options := [\<lparr>opt_text = ''4'', isCorrect = True, votes = Suc 0\<rparr>,
                                \<lparr>opt_text = ''5'', isCorrect = False, votes = 0\<rparr>]\<rparr>) =
      demo_poll\<lparr>options := [\<lparr>opt_text = ''4'', isCorrect = True, votes = 2\<rparr>,
                              \<lparr>opt_text = ''5'', isCorrect = False, votes = 0\<rparr>]\<rparr>"
    by (simp add: add_vote_def)
  have v: "map votes (options demo_poll) = [0, 0]"
    by (simp add: demo_poll_def)
  have r1: "run demo_state [SubmitAnswer ''a'' ''p1'' ''A'' ''4'' (Some 2)] = ?s1"
    unfolding run_def using e1 by simp
  have r2: "run demo_state [SubmitAnswer ''a'' ''p1'' ''A'' ''4'' (Some 2),
                            SubmitAnswer ''a'' ''p1'' ''A'' ''4'' None] =
            submitAnswer ?s1 ''a'' ''p1'' ''A'' ''4'' None"
    unfolding run_def using e1 by simp
  have first: "currentActivePoll demo_state = Some demo_poll \<and>
      map votes (options demo_poll) = [0, 0] \<and>
      currentActivePoll (run demo_state [SubmitAnswer ''a'' ''p1'' ''A'' ''4'' (Some 2)]) =
        Some (demo_poll\<lparr>options := [\<lparr>opt_text = ''4'', isCorrect = True, votes = 1\<rparr>,
                                      \<lparr>opt_text = ''5'', isCorrect = False, votes = 0\<rparr>]\<rparr>) \<and>
      currentActivePoll
        (run demo_state [SubmitAnswer ''a'' ''p1'' ''A'' ''4'' (Some 2),
                         SubmitAnswer ''a'' ''p1'' ''A'' ''4'' None]) =
        Some (demo_poll\<lparr>options := [\<lparr>opt_text = ''4'', isCorrect = True, votes = 2\<rparr>,
                                      \<lparr>opt_text = ''5'', isCorrect = False, votes = 0\<rparr>]\<rparr>) \<and>
      polls
        (run demo_state [SubmitAnswer ''a'' ''p1'' ''A'' ''4'' (Some 2),
                         SubmitAnswer ''a'' ''p1'' ''A'' ''4'' None]) ''p1'' =
        Some (demo_poll\<lparr>options := [\<lparr>opt_text = ''4'', isCorrect = True, votes = 2\<rparr>,
                                      \<lparr>opt_text = ''5'', isCorrect = False, votes = 0\<rparr>]\<rparr>)"
    unfolding r1 r2 e2
    by (simp add: emitStudentListUpdate_def emit_def voted_def twice add_vote_demo_poll
        demo_current v)
  have t2: "run two_tab_state [SubmitAnswer ''a'' ''p1'' ''A'' ''4'' None,
                               SubmitAnswer ''a'' ''p1'' ''A'' ''4'' None] =
      submitAnswer (submitAnswer two_tab_state ''a'' ''p1'' ''A'' ''4'' None)
        ''a'' ''p1'' ''A'' ''4'' None"
    by (simp add: run_def)
  have second: "currentActivePoll two_tab_state = Some two_tab_poll \<and>
      map votes (options two_tab_poll) = [0, 0] \<and>
      currentActivePoll
        (run two_tab_state [SubmitAnswer ''a'' ''p1'' ''A'' ''4'' None,
                            SubmitAnswer ''a'' ''p1'' ''A'' ''4'' None]) =
        Some (two_tab_poll\<lparr>options := [\<lparr>opt_text = ''4'', isCorrect = True, votes = 2\<rparr>,
                                         \<lparr>opt_text = ''5'', isCorrect = False, votes = 0\<rparr>]\<rparr>)"
    unfolding t2 two_tab_first_call two_tab_second_call
    by (simp add: emit_def two_tab_facts add_vote_def two_tab_poll_def)
  from first second show ?thesis
    by blast
qed

subsection \<open>Joining and disconnecting\<close>

lemma studentJoin_findOne_existing:
  assumes "findOne sid (students s) = Some st"
  shows "findOne sid (students (studentJoin s sock nm sid now fail)) =
           Some (if fail = Some 0 \<or> fail = Some 1 \<or>
                    \<not> valid_student
                        (st\<lparr>socketId := Some sock, lastSeen := now, kicked := False\<rparr>)
                 then st
                 else st\<lparr>socketId := Some sock, lastSeen := now, kicked := False\<rparr>)"
proof -
  from assms have "studentId st = sid"
    by (rule findOne_studentId)
  with assms show ?thesis
    by (simp add: studentJoin_def Let_def emit_def emitStudentListUpdate_def
        findOne_save_student split: option.split)
qed

lemma studentJoin_hasAnswered:
  "map_option hasAnswered (findOne sid' (students (studentJoin s sock nm sid now fail))) =
     (if findOne sid' (students s) = None \<and> sid' = sid \<and> fail \<noteq> Some 0 \<and> fail \<noteq> Some 1 \<and>
         valid_student
           \<lparr>socketId = Some sock, studentId = sid, name = nm, lastSeen = now,
            hasAnswered = False, kicked = False\<rparr>
      then Some False
      else map_option hasAnswered (findOne sid' (students s)))"
proof (cases "findOne sid (students s)")
  case None
  then show ?thesis
    by (simp add: studentJoin_def Let_def emit_def emitStudentListUpdate_def
        findOne_append_new split: option.split)
next
  case (Some st)
  then have "studentId st = sid"
    by (rule findOne_studentId)
  with Some show ?thesis
    by (auto simp add: studentJoin_def Let_def emit_def emitStudentListUpdate_def
        findOne_save_student split: option.split)
qed

lemma studentJoin_frame:
  "currentActivePoll (studentJoin s sock nm sid now fail) = currentActivePoll s \<and>
   polls (studentJoin s sock nm sid now fail) = polls s \<and>
   answeredStudentsCount (studentJoin s sock nm sid now fail) = answeredStudentsCount s \<and>
   socketStudentId (studentJoin s sock nm sid now fail) sock = Some sid"
  by (simp add: studentJoin_def Let_def emit_def emitStudentListUpdate_def split: option.split)

lemma disconnect_hasAnswered:
  "map_option hasAnswered (findOne sid (students (disconnect s sock now fail))) =
   map_option hasAnswered (findOne sid (students s))"
  by (simp add: disconnect_def Let_def emit_def emitStudentListUpdate_def
      findOne_updateOne_offline)

lemma disconnect_frame:
  "currentActivePoll (disconnect s sock now fail) = currentActivePoll s \<and>
   polls (disconnect s sock now fail) = polls s \<and>
   answeredStudentsCount (disconnect s sock now fail) = answeredStudentsCount s"
  by (simp add: disconnect_def Let_def emit_def emitStudentListUpdate_def)

lemma answered_state_facts:
  "findOne ''A'' (students answered_state) = Some (demo_student\<lparr>hasAnswered := True\<rparr>) \<and>
   currentActivePoll answered_state = Some (add_vote 0 demo_poll) \<and>
   answeredStudentsCount answered_state = 1"
  unfolding answered_state_def run_def
  by (simp add: submitAnswer_accepted [OF demo_accepts demo_student_valid]
      emitStudentListUpdate_def emit_def voted_def demo_students findOne_def demo_student_def
      demo_count)

text \<open>
  C7. A respondent \<open>sid\<close> whose stored record has \<open>hasAnswered = true\<close> disconnects from
  the socket \<open>sock\<close> and joins again from the socket \<open>sock'\<close> while the poll \<open>p\<close> is
  still the current one. The disconnect handler leaves the answered flag of the record
  as it is; the join handler, when its store operations return and the updated record
  passes the validation of \<open>save()\<close>, writes \<open>socketId\<close>, \<open>lastSeen\<close> and \<open>kicked\<close> of
  the record and nothing else (and writes nothing otherwise), so the flag is still
  \<open>true\<close>. A submission from the new socket then only
  gets an error notice: the notice "You have already answered ...", or the server-error
  notice when the lookup of the student itself fails; the poll, its vote counts, the
  stored polls and the counter are those from before the disconnect.
\<close>

theorem reconnect_keeps_answered:
  assumes "findOne sid (students s) = Some st" and "hasAnswered st"
      and "currentActivePoll s = Some p"
  shows "let s1 = disconnect s sock t1 f1;
             s2 = studentJoin s1 sock' nm sid t2 f2;
             s3 = submitAnswer s2 sock' (poll_id p) sid answer f3
         in (\<exists>st1. findOne sid (students s1) = Some st1 \<and> hasAnswered st1 \<and>
               findOne sid (students s2) =
                 Some (if f2 = Some 0 \<or> f2 = Some 1 \<or>
                          \<not> valid_student
                              (st1\<lparr>socketId := Some sock', lastSeen := t2, kicked := False\<rparr>)
                       then st1
                       else st1\<lparr>socketId := Some sock', lastSeen := t2, kicked := False\<rparr>)) \<and>
            map_option hasAnswered (findOne sid (students s2)) = Some True \<and>
            s3 = emit (ToSocket sock')
                   (ErrorMsg (if f3 = Some 0 then msg_submit_failed else msg_already_answered))
                   s2 \<and>
            currentActivePoll s3 = Some p \<and> polls s3 = polls s \<and>
            answeredStudentsCount s3 = answeredStudentsCount s"
proof -
  define s1 where "s1 = disconnect s sock t1 f1"
  define s2 where "s2 = studentJoin s1 sock' nm sid t2 f2"
  define s3 where "s3 = submitAnswer s2 sock' (poll_id p) sid answer f3"
  have "map_option hasAnswered (findOne sid (students s1)) = Some True"
    using assms by (simp add: s1_def disconnect_hasAnswered)
  then obtain st1 where st1: "findOne sid (students s1) = Some st1" "hasAnswered st1"
    by auto
  have st2: "findOne sid (students s2) =
      Some (if f2 = Some 0 \<or> f2 = Some 1 \<or>
               \<not> valid_student
                   (st1\<lparr>socketId := Some sock', lastSeen := t2, kicked := False\<rparr>)
            then st1
            else st1\<lparr>socketId := Some sock', lastSeen := t2, kicked := False\<rparr>)"
    unfolding s2_def by (rule studentJoin_findOne_existing [OF st1(1)])
  then have flag: "map_option hasAnswered (findOne sid (students s2)) = Some True"
    using st1(2) by simp
  have cur: "currentActivePoll s2 = Some p"
    using assms(3) by (simp add: s2_def s1_def studentJoin_frame disconnect_frame)
  have bound: "socketStudentId s2 sock' = Some sid"
    by (simp add: s2_def studentJoin_frame)
  have frame: "polls s2 = polls s \<and> answeredStudentsCount s2 = answeredStudentsCount s"
    by (simp add: s2_def s1_def studentJoin_frame disconnect_frame)
  have answered: "findOne sid (students s2) = None \<or>
      (\<exists>st. findOne sid (students s2) = Some st \<and> hasAnswered st)"
    using st2 st1(2) by simp
  have s3: "s3 = emit (ToSocket sock')
      (ErrorMsg (if f3 = Some 0 then msg_submit_failed else msg_already_answered)) s2"
  proof (cases "f3 = Some 0")
    case True
    then show ?thesis
      using submitAnswer_fails_at_0 [OF bound cur refl, of answer] by (simp add: s3_def)
  next
    case False
    then show ?thesis
      using submitAnswer_answered [OF bound cur refl False answered, of answer]
      by (simp add: s3_def)
  qed
  have "currentActivePoll s3 = Some p \<and> polls s3 = polls s \<and>
        answeredStudentsCount s3 = answeredStudentsCount s"
    using cur frame by (simp add: s3 emit_def)
  with st1 st2 flag s3 show ?thesis
    unfolding Let_def s1_def [symmetric] s2_def [symmetric] s3_def [symmetric] by blast
qed

theorem reconnect_keeps_answered_witness:
  "findOne ''A'' (students answered_state) = Some (demo_student\<lparr>hasAnswered := True\<rparr>) \<and>
   hasAnswered (demo_student\<lparr>hasAnswered := True\<rparr>) \<and>
   currentActivePoll answered_state = Some (add_vote 0 demo_poll) \<and>
   (let s1 = disconnect answered_state ''a'' 5 None;
        s2 = studentJoin s1 ''b'' ''Ann'' ''A'' 6 None;
        s3 = submitAnswer s2 ''b'' (poll_id (add_vote 0 demo_poll)) ''A'' ''5'' None
    in map_option hasAnswered (findOne ''A'' (students s2)) = Some True \<and>
       s3 = emit (ToSocket ''b'') (ErrorMsg msg_already_answered) s2 \<and>
       currentActivePoll s3 = Some (add_vote 0 demo_poll) \<and>
       answeredStudentsCount s3 = answeredStudentsCount answered_state)"
proof -
  have h1: "findOne ''A'' (students answered_state) = Some (demo_student\<lparr>hasAnswered := True\<rparr>)"
    by (simp add: answered_state_facts)
  have h2: "hasAnswered (demo_student\<lparr>hasAnswered := True\<rparr>)"
    by simp
  have h3: "currentActivePoll answered_state = Some (add_vote 0 demo_poll)"
    by (simp add: answered_state_facts)
  from reconnect_keeps_answered
         [OF h1 h2 h3, of "''a''" 5 None "''b''" "''Ann''" 6 None "''5''" None]
       h1 h2 h3
  show ?thesis by (auto simp add: Let_def)
qed

subsection \<open>The kick handler\<close>

lemma kicked_document_invalid:
  "\<not> valid_student (st\<lparr>kicked := True, socketId := None\<rparr>)"
  by (simp add: valid_student_def)

lemma kickStudent_only_notice:
  "\<exists>m. kickStudent s sock sid fail = emit (ToSocket sock) (ErrorMsg m) s"
  by (auto simp add: kickStudent_def kicked_document_invalid split: option.split)

lemma set_save_student: "set (save_student d xs) \<subseteq> insert d (set xs)"
  by (induction xs) auto

lemma kicked_updateOne_offline:
  "st \<in> set (updateOne_offline k now xs) \<Longrightarrow> \<exists>x \<in> set xs. kicked st = kicked x"
  by (induction xs) (auto split: if_splits)

lemma findOne_in_set: "findOne sid xs = Some st \<Longrightarrow> st \<in> set xs"
  by (induction xs) (auto simp add: findOne_def split: if_splits)

lemma submitAnswer_students:
  "students (submitAnswer s sock pollId sid answer fail) = students s \<or>
   (\<exists>st. findOne sid (students s) = Some st \<and>
      students (submitAnswer s sock pollId sid answer fail) =
        save_student (st\<lparr>hasAnswered := True\<rparr>) (students s))"
  by (simp add: submitAnswer_def emit_def emitStudentListUpdate_def Let_def split: option.split)

lemma studentJoin_students:
  "set (students (studentJoin s sock nm sid now fail)) \<subseteq> set (students s) \<union> {d. \<not> kicked d}"
  by (auto simp add: studentJoin_def emit_def emitStudentListUpdate_def Let_def
      split: option.split dest!: set_save_student [THEN subsetD])

lemma not_kicked_step:
  assumes inv: "\<forall>st \<in> set (students s). \<not> kicked st"
  shows "\<forall>st \<in> set (students (step s e)). \<not> kicked st"
proof (cases e)
  case (Connection sock)
  with inv show ?thesis
    by (simp add: connection_def)
next
  case (StudentJoin sock nm sid now fail)
  from studentJoin_students [of s sock nm sid now fail] inv
  have "\<forall>st \<in> set (students (studentJoin s sock nm sid now fail)). \<not> kicked st"
    by auto
  with StudentJoin show ?thesis
    by simp
next
  case (SubmitAnswer sock pollId sid answer fail)
  from submitAnswer_students [of s sock pollId sid answer fail]
  have "\<forall>st \<in> set (students (submitAnswer s sock pollId sid answer fail)). \<not> kicked st"
  proof (elim disjE exE conjE)
    assume "students (submitAnswer s sock pollId sid answer fail) = students s"
    with inv show ?thesis
      by simp
  next
    fix st
    assume f: "findOne sid (students s) = Some st"
      and e: "students (submitAnswer s sock pollId sid answer fail) =
                save_student (st\<lparr>hasAnswered := True\<rparr>) (students s)"
    from f have "st \<in> set (students s)"
      by (rule findOne_in_set)
    with inv have "\<not> kicked (st\<lparr>hasAnswered := True\<rparr>)"
      by simp
    with inv e set_save_student [of "st\<lparr>hasAnswered := True\<rparr>" "students s"]
    show ?thesis
      by auto
  qed
  with SubmitAnswer show ?thesis
    by simp
next
  case (CreatePoll sock pollData newId now fail)
  with inv show ?thesis
    by (auto simp add: createPoll_def Let_def emit_def emitStudentListUpdate_def)
next
  case (EndPoll sock pollId now fail)
  with inv show ?thesis
    by (auto simp add: endPollHandler_def endPoll_def Let_def emit_def
        emitStudentListUpdate_def split: option.split)
next
  case (TimerFires now fail)
  with inv show ?thesis
    by (auto simp add: timerFires_def endPoll_def Let_def emit_def emitStudentListUpdate_def
        split: option.split)
next
  case (KickStudent sock sid fail)
  from kickStudent_only_notice [of s sock sid fail] obtain m where
    "kickStudent s sock sid fail = emit (ToSocket sock) (ErrorMsg m) s"
    by blast
  with KickStudent inv show ?thesis
    by (simp add: emit_def)
next
  case (SendMessage sender msg now)
  with inv show ?thesis
    by (simp add: sendMessage_def emit_def)
next
  case (Disconnect sock now fail)
  with inv show ?thesis
    by (auto simp add: disconnect_def Let_def emit_def emitStudentListUpdate_def
        dest: kicked_updateOne_offline)
qed

lemma run_snoc: "run s (evs @ [e]) = step (run s evs) e"
  by (simp add: run_def)

lemma not_kicked_run: "\<forall>st \<in> set (students (run initial_state evs)). \<not> kicked st"
proof (induction evs rule: rev_induct)
  case Nil
  show ?case
    by (simp add: run_def initial_state_def)
next
  case (snoc e evs)
  then show ?case
    unfolding run_snoc by (rule not_kicked_step)
qed

lemma joined_student: "findOne ''A'' (students joined_state) = Some demo_student"
  by (simp add: joined_state_def demo_defs)

text \<open>
  C8, at the kick of a connected student. The kick handler sets \<open>kicked = true\<close> and
  \<open>socketId = null\<close> on the document and saves it; the schema requires \<open>socketId\<close>, so
  \<open>save()\<close> throws for every student and the handler ends in its \<open>catch\<close> block. For the
  student \<open>A\<close> of the example, connected through the socket \<open>a\<close>: the teacher gets
  "Failed to kick student.", and the record keeps \<open>kicked = false\<close> and its \<open>socketId\<close>.
  For every state, student id and store behaviour the handler changes neither the
  stored students nor the connected sockets and emits one error notice to the caller.
\<close>

theorem kickStudent_stores_nothing:
  "findOne ''A'' (students joined_state) = Some demo_student \<and>
   socketId demo_student = Some ''a'' \<and> \<not> kicked demo_student \<and>
   kickStudent joined_state ''t'' ''A'' None =
     emit (ToSocket ''t'') (ErrorMsg ''Failed to kick student.'') joined_state \<and>
   students (kickStudent s sock sid fail) = students s \<and>
   connected (kickStudent s sock sid fail) = connected s \<and>
   (\<exists>m. kickStudent s sock sid fail = emit (ToSocket sock) (ErrorMsg m) s)"
proof -
  have k: "kickStudent joined_state ''t'' ''A'' None =
      emit (ToSocket ''t'') (ErrorMsg ''Failed to kick student.'') joined_state"
    by (simp add: kickStudent_def joined_student kicked_document_invalid)
  from kickStudent_only_notice [of s sock sid fail] obtain m where
    m: "kickStudent s sock sid fail = emit (ToSocket sock) (ErrorMsg m) s"
    by blast
  then have "students (kickStudent s sock sid fail) = students s \<and>
      connected (kickStudent s sock sid fail) = connected s"
    by (simp add: emit_def)
  moreover have "socketId demo_student = Some ''a'' \<and> \<not> kicked demo_student"
    by (simp add: demo_student_def)
  ultimately show ?thesis
    using k joined_student kickStudent_only_notice [of s sock sid fail] by blast
qed

subsection \<open>The counter in the two-socket state\<close>

text \<open>
  C9, at an accepted answer of a respondent whose stored \<open>socketId\<close> is null. In
  \<open>two_tab_state\<close>, reached without any failing store operation, the counter and the sum
  of the vote counts are both 0. The student \<open>A\<close> submits "4" from the socket \<open>a\<close>, and
  again no store operation fails: the vote is counted and the poll is saved, then
  \<open>student.save()\<close> is rejected by the validation, before \<open>answeredStudentsCount++\<close>. The
  current poll and the stored poll have one vote, the counter is still 0, the answered
  flag is not set, and the socket gets the server-error notice.
\<close>

theorem counter_behind_votes:
  "currentActivePoll two_tab_state = Some two_tab_poll \<and> totalVotes two_tab_poll = 0 \<and>
   answeredStudentsCount two_tab_state = 0 \<and>
   currentActivePoll (run two_tab_state [SubmitAnswer ''a'' ''p1'' ''A'' ''4'' None]) =
     Some (two_tab_poll\<lparr>options := [\<lparr>opt_text = ''4'', isCorrect = True, votes = 1\<rparr>,
                                      \<lparr>opt_text = ''5'', isCorrect = False, votes = 0\<rparr>]\<rparr>) \<and>
   polls (run two_tab_state [SubmitAnswer ''a'' ''p1'' ''A'' ''4'' None]) ''p1'' =
     Some (two_tab_poll\<lparr>options := [\<lparr>opt_text = ''4'', isCorrect = True, votes = 1\<rparr>,
                                      \<lparr>opt_text = ''5'', isCorrect = False, votes = 0\<rparr>]\<rparr>) \<and>
   totalVotes
     (two_tab_poll\<lparr>options := [\<lparr>opt_text = ''4'', isCorrect = True, votes = 1\<rparr>,
                                \<lparr>opt_text = ''5'', isCorrect = False, votes = 0\<rparr>]\<rparr>) = 1 \<and>
   answeredStudentsCount (run two_tab_state [SubmitAnswer ''a'' ''p1'' ''A'' ''4'' None]) = 0 \<and>
   students (run two_tab_state [SubmitAnswer ''a'' ''p1'' ''A'' ''4'' None]) =
     [two_tab_student] \<and>
   outbox (run two_tab_state [SubmitAnswer ''a'' ''p1'' ''A'' ''4'' None]) =
     outbox two_tab_state @ [(ToSocket ''a'', ErrorMsg msg_submit_failed)]"
proof -
  have r: "run two_tab_state [SubmitAnswer ''a'' ''p1'' ''A'' ''4'' None] =
      submitAnswer two_tab_state ''a'' ''p1'' ''A'' ''4'' None"
    by (simp add: run_def)
  have t: "totalVotes two_tab_poll = 0 \<and>
      totalVotes
        (two_tab_poll\<lparr>options := [\<lparr>opt_text = ''4'', isCorrect = True, votes = 1\<rparr>,
                                   \<lparr>opt_text = ''5'', isCorrect = False, votes = 0\<rparr>]\<rparr>) = 1"
    by (simp add: totalVotes_def two_tab_poll_def)
  show ?thesis
    unfolding r two_tab_first_call
    using t by (simp add: emit_def two_tab_facts two_tab_votes)
qed

end
